theory Spec2Isabelle
  imports Main "HOL-Library.Sublist"
begin

section \<open>JavaScript values used by the program\<close>

text \<open>
  A JavaScript string that may be \<open>undefined\<close> or \<open>null\<close> is a \<open>string option\<close>.
  The conditions \<open>if (x)\<close>, \<open>!x\<close>, \<open>x && ...\<close> and \<open>x || ...\<close> of the source test
  truthiness: a string is truthy exactly when it is present and not empty.
\<close>

definition truthy :: "string option \<Rightarrow> bool" where
  "truthy x = (case x of None \<Rightarrow> False | Some s \<Rightarrow> s \<noteq> [])"

text \<open>\<open>String.prototype.includes\<close>: the argument occurs as a contiguous substring.\<close>

definition str_includes :: "string \<Rightarrow> string \<Rightarrow> bool" where
  "str_includes s sub = sublist sub s"

text \<open>
  A thrown value. The handlers of the source read only its \<open>message\<close> property, and they
  guard against a missing one (\<open>e.message && ...\<close>, \<open>e.message || ...\<close>), so the property is
  optional.
\<close>

datatype thrown = Error (message: "string option")

section \<open>The key endpoint: api/get-key.js and the route of server.js\<close>

text \<open>
  The JSON bodies the two handlers send, and the response object they act on. A fresh
  response of Node has status code 200; \<open>res.status(c)\<close> sets the code and \<open>res.json(b)\<close>
  sends the body.
\<close>

datatype key_body = ApiKeyBody string | ErrorBody string

record http_response =
  statusCode :: nat
  body :: "key_body option"

definition fresh_response :: http_response where
  "fresh_response = \<lparr>statusCode = 200, body = None\<rparr>"

definition res_status :: "nat \<Rightarrow> http_response \<Rightarrow> http_response" where
  "res_status c res = res\<lparr>statusCode := c\<rparr>"

definition res_json :: "key_body \<Rightarrow> http_response \<Rightarrow> http_response" where
  "res_json b res = res\<lparr>body := Some b\<rparr>"

text \<open>
  \<open>module.exports\<close> of api/get-key.js. The argument is \<open>process.env.GEMINI_API_KEY\<close> as
  the handler reads it on each request: \<open>None\<close> when the variable is not defined.
\<close>

definition get_key_handler :: "string option \<Rightarrow> http_response \<Rightarrow> http_response" where
  "get_key_handler env_GEMINI_API_KEY res =
     (case env_GEMINI_API_KEY of
        Some apiKey \<Rightarrow>
          (if apiKey \<noteq> [] then res_json (ApiKeyBody apiKey) res
           else res_json (ErrorBody ''GEMINI_API_KEY is not configured on the server.'')
                  (res_status 500 res))
      | None \<Rightarrow>
          res_json (ErrorBody ''GEMINI_API_KEY is not configured on the server.'')
            (res_status 500 res))"

text \<open>
  The route \<open>app.get('/api/get-key', ...)\<close> of server.js. It differs from the serverless
  function only in when the variable is read: once, when the server starts.
\<close>

definition server_get_key :: "string option \<Rightarrow> http_response \<Rightarrow> http_response" where
  "server_get_key apiKey_at_startup res =
     (if truthy apiKey_at_startup
      then res_json (ApiKeyBody (case apiKey_at_startup of Some k \<Rightarrow> k | None \<Rightarrow> [])) res
      else res_json (ErrorBody ''GEMINI_API_KEY is not configured on the server.'')
             (res_status 500 res))"

section \<open>The world outside the service module\<close>

text \<open>
  The operation object of the SDK: its name, the \<open>done\<close> flag (absent while the job
  runs), opaque metadata, and the response with the generated videos.
\<close>

record Video =
  uri :: "string option"

record GeneratedVideo =
  video :: "Video option"

record GenerateVideosResponse =
  generatedVideos :: "GeneratedVideo list option"

record Operation =
  name :: string
  done_flag :: "bool option"
  metadata :: "string option"
  response :: "GenerateVideosResponse option"

text \<open>The loop condition \<open>!operation.done\<close> tests truthiness of the flag.\<close>

definition is_done :: "Operation \<Rightarrow> bool" where
  "is_done operation = (done_flag operation = Some True)"

text \<open>\<open>operation.response?.generatedVideos?.[0]?.video?.uri\<close>\<close>

definition downloadLink :: "Operation \<Rightarrow> string option" where
  "downloadLink operation =
     (case response operation of
        None \<Rightarrow> None
      | Some r \<Rightarrow>
          (case generatedVideos r of
             None \<Rightarrow> None
           | Some vs \<Rightarrow>
               (case vs of
                  [] \<Rightarrow> None
                | v # _ \<Rightarrow> (case video v of None \<Rightarrow> None | Some vd \<Rightarrow> uri vd))))"

type_synonym blob = "nat list"

text \<open>
  A \<open>Response\<close> of \<open>fetch\<close>: \<open>ok\<close>, \<open>status\<close>, \<open>statusText\<close>, and what awaiting
  \<open>text()\<close>, \<open>json()\<close> and \<open>blob()\<close> gives (each may reject). Of the JSON only the
  \<open>apiKey\<close> property is read, so the parsed body is one of the two shapes the key
  endpoint sends.
\<close>

record fetch_response =
  ok :: bool
  status :: nat
  statusText :: string
  resp_text :: "thrown + string"
  resp_json :: "thrown + key_body"
  resp_blob :: "thrown + blob"

definition data_apiKey :: "key_body \<Rightarrow> string option" where
  "data_apiKey data = (case data of ApiKeyBody k \<Rightarrow> Some k | ErrorBody _ \<Rightarrow> None)"

datatype AspectRatio = Landscape | Portrait

text \<open>
  \<open>GenerateVideoParams\<close> without the callback \<open>setLoadingMessage\<close>: each call of the
  callback is an event of the trace instead.
\<close>

record GenerateVideoParams =
  prompt :: string
  imageBase64 :: string
  aspectRatio :: AspectRatio

text \<open>
  What the environment answers during one call of an operation of the module:
  \<open>window.aistudio\<close> and its two functions, \<open>process.env.API_KEY\<close>, the answer to
  \<open>fetch('/api/get-key')\<close>, the remote service (the create call, given the key and the
  parameters, and the \<open>n\<close>-th poll, given the submitted operation), the answer to the
  download, and \<open>URL.createObjectURL\<close>.
\<close>

record world =
  aistudio :: bool
  env_API_KEY :: "string option"
  hasSelectedApiKey :: "thrown + bool"
  openSelectKey :: "thrown + unit"
  fetch_key :: "thrown + fetch_response"
  generateVideos :: "string \<Rightarrow> GenerateVideoParams \<Rightarrow> thrown + Operation"
  getVideosOperation :: "nat \<Rightarrow> Operation \<Rightarrow> thrown + Operation"
  fetch_video :: "string \<Rightarrow> thrown + fetch_response"
  createObjectURL :: "blob \<Rightarrow> string"

text \<open>
  The effects of a call, in order. Console output is left out, and so are the messages
  set by the callback of the interval timer, which runs beside the poll loop.
\<close>

datatype event =
    FetchKey
  | SetLoadingMessage string
  | GenerateVideos string GenerateVideoParams
  | SetInterval nat nat
  | ClearInterval nat
  | SetTimeout nat
  | GetVideosOperation string Operation
  | FetchVideo string
  | CreateObjectURL blob

section \<open>services/geminiService.ts\<close>

text \<open>
  The module variables \<open>apiKey\<close> and \<open>isInitialized\<close>, and the interval timers of the
  browser that are active (\<open>setInterval\<close> returns a fresh identifier).
\<close>

record state =
  apiKey :: "string option"
  isInitialized :: bool
  activeIntervals :: "nat list"
  nextIntervalId :: nat

text \<open>\<open>setInterval\<close> and \<open>clearInterval\<close> of the browser, on the timers of the state.\<close>

definition setInterval :: "state \<Rightarrow> nat \<times> state" where
  "setInterval s =
     (nextIntervalId s,
      s\<lparr>activeIntervals := nextIntervalId s # activeIntervals s,
        nextIntervalId := Suc (nextIntervalId s)\<rparr>)"

definition clearInterval :: "nat \<Rightarrow> state \<Rightarrow> state" where
  "clearInterval i s = s\<lparr>activeIntervals := removeAll i (activeIntervals s)\<rparr>"

definition isAiStudio :: "world \<Rightarrow> bool" where
  "isAiStudio w = aistudio w"

text \<open>Lines 39 to 51 of \<open>getApiKey\<close>: the fetch from the server, and the caching.\<close>

definition fetchApiKey :: "world \<Rightarrow> state \<Rightarrow> (thrown + string) \<times> state \<times> event list" where
  "fetchApiKey w s =
     (case fetch_key w of
        Inl e \<Rightarrow> (Inl e, s, [FetchKey])
      | Inr resp \<Rightarrow>
          (if \<not> ok resp then
             (case resp_text resp of
                Inl e \<Rightarrow> (Inl e, s, [FetchKey])
              | Inr errorText \<Rightarrow>
                  (Inl (Error (Some ''Could not connect to the server to get the API key. Please check the server logs.'')),
                   s, [FetchKey]))
           else
             (case resp_json resp of
                Inl e \<Rightarrow> (Inl e, s, [FetchKey])
              | Inr data \<Rightarrow>
                  (case data_apiKey data of
                     None \<Rightarrow>
                       (Inl (Error (Some ''Server responded but did not provide an API key.'')),
                        s, [FetchKey])
                   | Some k \<Rightarrow>
                       (if k = [] then
                          (Inl (Error (Some ''Server responded but did not provide an API key.'')),
                           s, [FetchKey])
                        else (Inr k, s\<lparr>apiKey := Some k\<rparr>, [FetchKey]))))))"

definition getApiKey :: "world \<Rightarrow> state \<Rightarrow> (thrown + string) \<times> state \<times> event list" where
  "getApiKey w s =
     (if isAiStudio w then
        (case env_API_KEY w of
           None \<Rightarrow> (Inl (Error (Some ''DEV_KEY_MISSING'')), s, [])
         | Some k \<Rightarrow>
             (if k = [] then (Inl (Error (Some ''DEV_KEY_MISSING'')), s, [])
              else (Inr k, s, [])))
      else
        (case apiKey s of
           None \<Rightarrow> fetchApiKey w s
         | Some k \<Rightarrow> (if k \<noteq> [] then (Inr k, s, []) else fetchApiKey w s)))"

text \<open>Lines 74 to 87 of \<open>initializeApp\<close>: the \<open>try\<close> statement.\<close>

definition try_getApiKey :: "world \<Rightarrow> state \<Rightarrow> (thrown + bool) \<times> state \<times> event list" where
  "try_getApiKey w s =
     (case getApiKey w s of
        (Inr k, s', tr) \<Rightarrow> (Inr True, s'\<lparr>isInitialized := True\<rparr>, tr)
      | (Inl err, s', tr) \<Rightarrow>
          (if message err = Some ''DEV_KEY_MISSING''
           then (Inr False, s'\<lparr>isInitialized := False\<rparr>, tr)
           else (Inl err, s', tr)))"

definition initializeApp :: "world \<Rightarrow> state \<Rightarrow> (thrown + bool) \<times> state \<times> event list" where
  "initializeApp w s =
     (if isAiStudio w then
        (if \<not> aistudio w then (Inr False, s\<lparr>isInitialized := False\<rparr>, [])
         else
           (case hasSelectedApiKey w of
              Inl e \<Rightarrow> (Inl e, s, [])
            | Inr hasKey \<Rightarrow>
                (if \<not> hasKey then (Inr False, s\<lparr>isInitialized := False\<rparr>, [])
                 else try_getApiKey w s)))
      else try_getApiKey w s)"

text \<open>\<open>e.message && e.message.includes(sub)\<close>\<close>

definition message_includes :: "thrown \<Rightarrow> string \<Rightarrow> bool" where
  "message_includes e sub =
     (case message e of None \<Rightarrow> False | Some m \<Rightarrow> m \<noteq> [] \<and> str_includes m sub)"

text \<open>\<open>e.message || fallback\<close>\<close>

definition message_or :: "thrown \<Rightarrow> string \<Rightarrow> string" where
  "message_or e fallback =
     (case message e of None \<Rightarrow> fallback | Some m \<Rightarrow> (if m \<noteq> [] then m else fallback))"

text \<open>The \<open>catch\<close> block of \<open>generateVideoFromImage\<close>, before it throws the error again.\<close>

definition catch_block :: "world \<Rightarrow> thrown \<Rightarrow> state \<Rightarrow> state" where
  "catch_block w err s =
     (if \<not> isAiStudio w \<and> message_includes err ''permission''
      then s\<lparr>apiKey := None, isInitialized := False\<rparr>
      else s)"

text \<open>The body of the poll loop, lines 145 to 147: wait, then poll with the operation held.\<close>

definition poll_iteration ::
  "(nat \<Rightarrow> Operation \<Rightarrow> thrown + Operation) \<Rightarrow> string \<Rightarrow> nat \<Rightarrow> Operation
     \<Rightarrow> (thrown + Operation) \<times> event list" where
  "poll_iteration poll key n operation =
     (poll n operation, [SetTimeout 10000, GetVideosOperation key operation])"

text \<open>
  The poll loop, lines 144 to 148. \<open>n\<close> counts the polls made so far and \<open>tr\<close> collects
  the events. A loop that never ends has the value \<open>None\<close>.
\<close>

partial_function (option) poll_loop ::
  "(nat \<Rightarrow> Operation \<Rightarrow> thrown + Operation) \<Rightarrow> string \<Rightarrow> nat \<Rightarrow> Operation \<Rightarrow> event list
     \<Rightarrow> ((thrown + Operation) \<times> event list) option" where
  "poll_loop poll key n operation tr =
     (if is_done operation then Some (Inr operation, tr)
      else
        (case poll_iteration poll key n operation of
           (Inl e, evs) \<Rightarrow> Some (Inl e, tr @ evs)
         | (Inr operation', evs) \<Rightarrow> poll_loop poll key (Suc n) operation' (tr @ evs)))"

text \<open>Lines 153 to 168: the download of the result, given the operation that is done.\<close>

definition download :: "world \<Rightarrow> string \<Rightarrow> Operation \<Rightarrow> (thrown + string) \<times> event list" where
  "download w key operation =
     (if \<not> truthy (downloadLink operation) then
        (Inl (Error (Some ''Video generation failed to produce a download link.'')), [])
      else
        (let url = (case downloadLink operation of Some l \<Rightarrow> l | None \<Rightarrow> []) @ ''&key='' @ key in
         (case fetch_video w url of
            Inl e \<Rightarrow> (Inl e, [FetchVideo url])
          | Inr resp \<Rightarrow>
              (if \<not> ok resp then
                 (case resp_text resp of
                    Inl e \<Rightarrow> (Inl e, [FetchVideo url])
                  | Inr errorBody \<Rightarrow>
                      (Inl (Error (Some (''Failed to download the generated video. Status: ''
                              @ statusText resp @ ''. Details: '' @ errorBody))),
                       [FetchVideo url]))
               else
                 (case resp_blob resp of
                    Inl e \<Rightarrow> (Inl e, [FetchVideo url])
                  | Inr videoBlob \<Rightarrow>
                      (Inr (createObjectURL w videoBlob),
                       [FetchVideo url, CreateObjectURL videoBlob]))))))"

text \<open>
  \<open>generateVideoFromImage\<close>. The guard and the call of \<open>getApiKey\<close> stand before the
  \<open>try\<close> statement; every error thrown after them passes through the \<open>catch\<close> block.
\<close>

definition generateVideoFromImage ::
  "world \<Rightarrow> GenerateVideoParams \<Rightarrow> state \<Rightarrow> ((thrown + string) \<times> state \<times> event list) option" where
  "generateVideoFromImage w params s =
     (if \<not> isInitialized s then
        Some (Inl (Error (Some ''Application is not initialized. Please select an API key if prompted.'')),
              s, [])
      else
        (case getApiKey w s of
           (Inl e, s1, tr1) \<Rightarrow> Some (Inl e, s1, tr1)
         | (Inr key, s1, tr1) \<Rightarrow>
             (let tr2 = tr1 @ [SetLoadingMessage ''Initializing animation sequence...'',
                               GenerateVideos key params] in
              (case generateVideos w key params of
                 Inl e \<Rightarrow> Some (Inl e, catch_block w e s1, tr2)
               | Inr operation0 \<Rightarrow>
                   (case setInterval s1 of
                      (intervalId, s2) \<Rightarrow>
                        (let tr3 = tr2 @ [SetInterval intervalId 5000,
                                     SetLoadingMessage ''The animation portal is open. Generating video...'']
                         in
                         (case poll_loop (getVideosOperation w) key 0 operation0 [] of
                            None \<Rightarrow> None
                          | Some (Inl e, trp) \<Rightarrow> Some (Inl e, catch_block w e s2, tr3 @ trp)
                          | Some (Inr operation, trp) \<Rightarrow>
                              (let s3 = clearInterval intervalId s2;
                                   tr4 = tr3 @ trp @ [ClearInterval intervalId,
                                           SetLoadingMessage ''Finalizing your video...'']
                               in
                               (case download w key operation of
                                  (Inl e, trd) \<Rightarrow> Some (Inl e, catch_block w e s3, tr4 @ trd)
                                | (Inr url, trd) \<Rightarrow> Some (Inr url, s3, tr4 @ trd))))))))))"

section \<open>App.tsx\<close>

text \<open>
  The values the component keeps in \<open>generatedVideoUrl\<close> and \<open>generatedVideoBlob\<close>.
  \<open>string_prop s p\<close> is the property \<open>p\<close> read from a string primitive: its \<open>length\<close>
  is a number, and a name that neither the string nor \<open>String.prototype\<close> defines, as
  \<open>url\<close> and \<open>blob\<close>, gives \<open>undefined\<close> (the methods of the prototype and the index
  properties are not modelled).
\<close>

datatype js_value = Undefined | Null | Str string | Num nat | BlobValue blob

definition string_prop :: "string \<Rightarrow> string \<Rightarrow> js_value" where
  "string_prop s p = (if p = ''length'' then Num (length s) else Undefined)"

definition js_truthy :: "js_value \<Rightarrow> bool" where
  "js_truthy v =
     (case v of
        Undefined \<Rightarrow> False
      | Null \<Rightarrow> False
      | Str s \<Rightarrow> s \<noteq> []
      | Num n \<Rightarrow> n \<noteq> 0
      | BlobValue _ \<Rightarrow> True)"

datatype AppState = Initializing | KeyNeeded | Ready | ErrorState

record app =
  app_imageBase64 :: "string option"
  app_prompt :: string
  app_aspectRatio :: AspectRatio
  isLoading :: bool
  generatedVideoUrl :: js_value
  generatedVideoBlob :: js_value
  error :: "string option"
  appState :: AppState

definition initial_app :: app where
  "initial_app =
     \<lparr>app_imageBase64 = None,
      app_prompt = ''Animate this hand-drawn monster, making it fun and lively with playful movements.'',
      app_aspectRatio = Landscape,
      isLoading = False,
      generatedVideoUrl = Null,
      generatedVideoBlob = Null,
      error = None,
      appState = Initializing\<rparr>"

definition initial_state :: state where
  "initial_state =
     \<lparr>apiKey = None, isInitialized = False, activeIntervals = [], nextIntervalId = 1\<rparr>"

text \<open>The effect that runs once when the component mounts.\<close>

definition init :: "world \<Rightarrow> app \<times> state \<Rightarrow> app \<times> state \<times> event list" where
  "init w as =
     (case as of (a, s) \<Rightarrow>
        (case initializeApp w s of
           (Inr keyIsReady, s', tr) \<Rightarrow>
             (a\<lparr>appState := (if keyIsReady then Ready else KeyNeeded)\<rparr>, s', tr)
         | (Inl err, s', tr) \<Rightarrow>
             (a\<lparr>error := Some (message_or err ''An unexpected error occurred during initialization.''),
                appState := ErrorState\<rparr>, s', tr)))"

definition handleSelectApiKey :: "world \<Rightarrow> app \<Rightarrow> app" where
  "handleSelectApiKey w a =
     (if aistudio w then
        (case openSelectKey w of
           Inr _ \<Rightarrow> a\<lparr>appState := Ready, error := None\<rparr>
         | Inl e \<Rightarrow>
             a\<lparr>error := Some ''Could not open the API key selector. Please try again.'',
               appState := ErrorState\<rparr>)
      else a)"

text \<open>The \<open>catch\<close> clause of \<open>handleGenerateVideo\<close>.\<close>

definition generation_error :: "thrown \<Rightarrow> app \<Rightarrow> app" where
  "generation_error e a =
     (if message_includes e ''Requested entity was not found.''
      then a\<lparr>error := Some ''The selected API key appears to be invalid. Please select another key.'',
             appState := KeyNeeded\<rparr>
      else a\<lparr>error := Some (message_or e ''An unknown error occurred.'')\<rparr>)"

text \<open>The argument of the call in \<open>handleGenerateVideo\<close>, from the state of the component.\<close>

definition video_params :: "app \<Rightarrow> GenerateVideoParams" where
  "video_params a =
     \<lparr>prompt = app_prompt a,
      imageBase64 = (case app_imageBase64 a of Some i \<Rightarrow> i | None \<Rightarrow> []),
      aspectRatio = app_aspectRatio a\<rparr>"

definition handleGenerateVideo :: "world \<Rightarrow> app \<times> state \<Rightarrow> (app \<times> state \<times> event list) option" where
  "handleGenerateVideo w as =
     (case as of (a, s) \<Rightarrow>
        (if appState a \<noteq> Ready then
           Some (a\<lparr>error := Some ''The application is not ready. Please select an API key if prompted.''\<rparr>,
                 s, [])
         else if \<not> truthy (app_imageBase64 a) then
           Some (a\<lparr>error := Some ''Please upload an image of your monster first!''\<rparr>, s, [])
         else if app_prompt a = [] then
           Some (a\<lparr>error := Some ''Please provide a prompt to animate your monster!''\<rparr>, s, [])
         else
           (let a1 = a\<lparr>error := None, generatedVideoUrl := Null, generatedVideoBlob := Null,
                       isLoading := True\<rparr>
            in
            (case generateVideoFromImage w (video_params a) s of
               None \<Rightarrow> None
             | Some (Inr result, s', tr) \<Rightarrow>
                 Some (a1\<lparr>generatedVideoUrl := string_prop result ''url'',
                          generatedVideoBlob := string_prop result ''blob'',
                          isLoading := False\<rparr>, s', tr)
             | Some (Inl e, s', tr) \<Rightarrow>
                 Some ((generation_error e a1)\<lparr>isLoading := False\<rparr>, s', tr)))))"

text \<open>The player and the share button are rendered under this condition.\<close>

definition video_shown :: "app \<Rightarrow> bool" where
  "video_shown a = (js_truthy (generatedVideoUrl a) \<and> js_truthy (generatedVideoBlob a))"

text \<open>
  A session of the page: the component mounts, \<open>init\<close> runs, and then the user acts. Each
  action comes with what the world answers while it is handled. A handler runs to its end
  before the next action (the button is disabled while \<open>isLoading\<close>).
\<close>

datatype user_event =
    SelectImage "string option"
  | EditPrompt string
  | ChooseAspectRatio AspectRatio
  | ClickSelectKey
  | ClickGenerate

definition app_step :: "user_event \<Rightarrow> world \<Rightarrow> app \<times> state \<Rightarrow> (app \<times> state \<times> event list) option" where
  "app_step ev w as =
     (case as of (a, s) \<Rightarrow>
        (case ev of
           SelectImage i \<Rightarrow> Some (a\<lparr>app_imageBase64 := i\<rparr>, s, [])
         | EditPrompt p \<Rightarrow> Some (a\<lparr>app_prompt := p\<rparr>, s, [])
         | ChooseAspectRatio r \<Rightarrow> Some (a\<lparr>app_aspectRatio := r\<rparr>, s, [])
         | ClickSelectKey \<Rightarrow> Some (handleSelectApiKey w a, s, [])
         | ClickGenerate \<Rightarrow> handleGenerateVideo w (a, s)))"

fun run_events :: "(user_event \<times> world) list \<Rightarrow> app \<times> state \<Rightarrow> (app \<times> state \<times> event list) option" where
  "run_events [] as = Some (fst as, snd as, [])"
| "run_events (ew # rest) as =
     (case app_step (fst ew) (snd ew) as of
        None \<Rightarrow> None
      | Some (a', s', tr) \<Rightarrow>
          (case run_events rest (a', s') of
             None \<Rightarrow> None
           | Some (a'', s'', tr') \<Rightarrow> Some (a'', s'', tr @ tr')))"

definition session :: "world \<Rightarrow> (user_event \<times> world) list \<Rightarrow> (app \<times> state \<times> event list) option" where
  "session w0 evs =
     (case init w0 (initial_app, initial_state) of
        (a, s, tr) \<Rightarrow>
          (case run_events evs (a, s) of
             None \<Rightarrow> None
           | Some (a', s', tr') \<Rightarrow> Some (a', s', tr @ tr')))"

section \<open>Notions used to state the properties\<close>

text \<open>
  The polling sequence of a remote service: \<open>operation_after poll n op k\<close> is what a
  client holds after \<open>k\<close> further polls, when it holds \<open>op\<close> after \<open>n\<close> polls and
  each poll submits the operation held. A rejected poll leaves its error.
\<close>

fun operation_after ::
  "(nat \<Rightarrow> Operation \<Rightarrow> thrown + Operation) \<Rightarrow> nat \<Rightarrow> Operation \<Rightarrow> nat \<Rightarrow> thrown + Operation" where
  "operation_after poll n op 0 = Inr op"
| "operation_after poll n op (Suc k) =
     (case poll n op of
        Inl e \<Rightarrow> Inl e
      | Inr op' \<Rightarrow> operation_after poll (Suc n) op' k)"

text \<open>The events of the first \<open>k\<close> iterations of such a client.\<close>

fun polls_trace ::
  "(nat \<Rightarrow> Operation \<Rightarrow> thrown + Operation) \<Rightarrow> string \<Rightarrow> nat \<Rightarrow> Operation \<Rightarrow> nat \<Rightarrow> event list" where
  "polls_trace poll key n op 0 = []"
| "polls_trace poll key n op (Suc k) =
     SetTimeout 10000 # GetVideosOperation key op #
       (case poll n op of
          Inl e \<Rightarrow> []
        | Inr op' \<Rightarrow> polls_trace poll key (Suc n) op' k)"

text \<open>The loop is left on an operation that is done, and on a rejected poll.\<close>

definition ends_loop :: "thrown + Operation \<Rightarrow> bool" where
  "ends_loop r = (case r of Inl e \<Rightarrow> True | Inr op \<Rightarrow> is_done op)"

text \<open>The operations submitted by the polls of a trace.\<close>

fun submitted :: "event list \<Rightarrow> Operation list" where
  "submitted [] = []"
| "submitted (GetVideosOperation key op # tr) = op # submitted tr"
| "submitted (ev # tr) = submitted tr"

text \<open>
  The waits and polls of a trace, other events left out, strictly alternate: one wait of
  \<open>d\<close> milliseconds, one poll, and so on.
\<close>

fun alternates :: "nat \<Rightarrow> event list \<Rightarrow> bool" where
  "alternates d [] = True"
| "alternates d (SetTimeout t # GetVideosOperation key op # tr) = (t = d \<and> alternates d tr)"
| "alternates d (SetTimeout t # tr) = False"
| "alternates d (GetVideosOperation key op # tr) = False"
| "alternates d (ev # tr) = alternates d tr"

text \<open>
  The operations \<open>ops\<close> are submitted in the order of the list, the first one is \<open>held\<close>,
  and every later one is what the poll before it returned.
\<close>

fun resubmits ::
  "(nat \<Rightarrow> Operation \<Rightarrow> thrown + Operation) \<Rightarrow> nat \<Rightarrow> Operation \<Rightarrow> Operation list \<Rightarrow> bool" where
  "resubmits poll n held [] = True"
| "resubmits poll n held (op # ops) =
     (op = held \<and>
      (case poll n op of
         Inl e \<Rightarrow> ops = []
       | Inr op' \<Rightarrow> resubmits poll (Suc n) op' ops))"

text \<open>The component holds no URL and no blob of a video.\<close>

definition no_video :: "app \<Rightarrow> bool" where
  "no_video a = ((generatedVideoUrl a = Null \<or> generatedVideoUrl a = Undefined)
     \<and> (generatedVideoBlob a = Null \<or> generatedVideoBlob a = Undefined))"

section \<open>Concrete worlds\<close>

text \<open>
  A production world in which every request fails, a state with a cached credential, an
  operation that is still running, and parameters of a call. The worlds of the examples
  below change single answers of \<open>offline\<close>.
\<close>

definition offline :: world where
  "offline =
     \<lparr>aistudio = False,
      env_API_KEY = None,
      hasSelectedApiKey = Inr False,
      openSelectKey = Inr (),
      fetch_key = Inl (Error (Some ''Failed to fetch'')),
      generateVideos = (\<lambda>key params. Inl (Error (Some ''Failed to fetch''))),
      getVideosOperation = (\<lambda>n operation. Inl (Error (Some ''Failed to fetch''))),
      fetch_video = (\<lambda>url. Inl (Error (Some ''Failed to fetch''))),
      createObjectURL = (\<lambda>b. ''blob:video'')\<rparr>"

definition ready_state :: state where
  "ready_state =
     \<lparr>apiKey = Some ''KEY'', isInitialized = True, activeIntervals = [], nextIntervalId = 1\<rparr>"

definition running :: Operation where
  "running = \<lparr>name = ''operations/1'', done_flag = None, metadata = None, response = None\<rparr>"

definition monster :: GenerateVideoParams where
  "monster =
     \<lparr>prompt = ''Animate this hand-drawn monster, making it fun and lively with playful movements.'',
      imageBase64 = ''iVBOR'', aspectRatio = Landscape\<rparr>"

text \<open>The remote service reports the job done on the first poll, with no video.\<close>

definition done_without_video :: world where
  "done_without_video =
     offline\<lparr>generateVideos := (\<lambda>key params. Inr running),
             getVideosOperation := (\<lambda>n operation. Inr (operation\<lparr>done_flag := Some True\<rparr>))\<rparr>"

text \<open>The job is created, and the first poll is rejected.\<close>

definition poll_rejected :: world where
  "poll_rejected = offline\<lparr>generateVideos := (\<lambda>key params. Inr running)\<rparr>"

text \<open>
  The first poll answers with a renamed operation that carries metadata, the second with
  the finished job; the download succeeds.
\<close>

definition finished :: Operation where
  "finished =
     \<lparr>name = ''operations/1b'', done_flag = Some True, metadata = Some ''100%'',
      response = Some \<lparr>generatedVideos =
        Some [\<lparr>video = Some \<lparr>uri = Some ''https://videos/1?alt=media''\<rparr>\<rparr>]\<rparr>\<rparr>"

definition video_file :: fetch_response where
  "video_file =
     \<lparr>ok = True, status = 200, statusText = ''OK'', resp_text = Inr [],
      resp_json = Inl (Error (Some ''Unexpected token'')), resp_blob = Inr [0, 0, 0, 24]\<rparr>"

definition progressing :: world where
  "progressing =
     offline\<lparr>generateVideos := (\<lambda>key params. Inr running),
             getVideosOperation := (\<lambda>n operation.
               if n = 0 then Inr (operation\<lparr>name := ''operations/1b'', metadata := Some ''50%''\<rparr>)
               else Inr finished),
             fetch_video := (\<lambda>url. Inr video_file)\<rparr>"

text \<open>
  The remote service keeps the name of the operation: two polls answer with progress in
  the metadata, the third with the finished job; the download succeeds.
\<close>

definition steady :: world where
  "steady =
     offline\<lparr>generateVideos := (\<lambda>key params. Inr running),
             getVideosOperation := (\<lambda>n operation.
               if n = 0 then Inr (operation\<lparr>metadata := Some ''33%''\<rparr>)
               else if n = Suc 0 then Inr (operation\<lparr>metadata := Some ''66%''\<rparr>)
               else Inr (operation\<lparr>done_flag := Some True, metadata := Some ''100%'',
                      response := Some \<lparr>generatedVideos =
                        Some [\<lparr>video = Some \<lparr>uri = Some ''https://videos/1?alt=media''\<rparr>\<rparr>]\<rparr>\<rparr>)),
             fetch_video := (\<lambda>url. Inr video_file)\<rparr>"

text \<open>The job is done at once, and the download of the result is rejected.\<close>

definition download_rejected :: world where
  "download_rejected = offline\<lparr>generateVideos := (\<lambda>key params. Inr finished)\<rparr>"

text \<open>The create call is rejected with a permission error, or with an empty message.\<close>

definition permission_denied :: world where
  "permission_denied =
     offline\<lparr>generateVideos := (\<lambda>key params. Inl (Error (Some ''The caller does not have permission'')))\<rparr>"

definition entity_not_found :: world where
  "entity_not_found =
     offline\<lparr>generateVideos := (\<lambda>key params. Inl (Error (Some ''404 Requested entity was not found.'')))\<rparr>"

definition empty_message :: world where
  "empty_message = offline\<lparr>generateVideos := (\<lambda>key params. Inl (Error (Some [])))\<rparr>"

text \<open>The component after a successful start, with an image selected.\<close>

definition ready_app :: app where
  "ready_app = initial_app\<lparr>app_imageBase64 := Some ''iVBOR'', appState := Ready\<rparr>"




definition studio_key :: world where
  "studio_key =
     offline\<lparr>aistudio := True, hasSelectedApiKey := Inr True, env_API_KEY := Some ''STUDIO''\<rparr>"

text \<open>Production: the key server answers with the key.\<close>

definition key_file :: fetch_response where
  "key_file =
     \<lparr>ok = True, status = 200, statusText = ''OK'', resp_text = Inr [],
      resp_json = Inr (ApiKeyBody ''KEY''), resp_blob = Inr []\<rparr>"

definition key_served :: world where
  "key_served = offline\<lparr>fetch_key := Inr key_file\<rparr>"

section \<open>Properties of the key endpoint\<close>

lemma truthy_Some [simp]: "truthy (Some s) = (s \<noteq> [])"
  by (simp add: truthy_def)

lemma truthy_None [simp]: "truthy None = False"
  by (simp add: truthy_def)

lemma server_get_key_eq: "server_get_key env res = get_key_handler env res"
  by (cases env) (simp_all add: server_get_key_def get_key_handler_def)

text \<open>
  C2, as stated, fails: a variable that is set to the empty string is set, and both
  handlers answer it with status 500 and the error body, not with 200 and the key.
\<close>

theorem C2_set_but_empty_counterexample:
  "statusCode (get_key_handler (Some []) fresh_response) = 500
   \<and> body (get_key_handler (Some []) fresh_response)
       = Some (ErrorBody ''GEMINI_API_KEY is not configured on the server.'')
   \<and> statusCode (server_get_key (Some []) fresh_response) = 500
   \<and> body (server_get_key (Some []) fresh_response) \<noteq> Some (ApiKeyBody [])"
  by (simp add: server_get_key_eq get_key_handler_def fresh_response_def res_json_def
      res_status_def)

text \<open>
  C2, amended: on every request, each of the two handlers answers a variable that is set
  to a non-empty string \<open>k\<close> with status 200 and the body \<open>{ apiKey: k }\<close>, and a variable
  that is unset or empty with status 500 and the body
  \<open>{ error: 'GEMINI_API_KEY is not configured on the server.' }\<close>.
\<close>

theorem C2_get_key_response:
  "get_key_handler env fresh_response =
     (if truthy env
      then \<lparr>statusCode = 200, body = Some (ApiKeyBody (the env))\<rparr>
      else \<lparr>statusCode = 500,
             body = Some (ErrorBody ''GEMINI_API_KEY is not configured on the server.'')\<rparr>)
   \<and> server_get_key env fresh_response = get_key_handler env fresh_response"
  by (cases env)
    (simp_all add: server_get_key_eq get_key_handler_def fresh_response_def res_json_def
      res_status_def)

section \<open>The poll loop\<close>

lemma poll_loop_done:
  "is_done op \<Longrightarrow> poll_loop poll key n op tr = Some (Inr op, tr)"
  by (subst poll_loop.simps) simp

lemma poll_loop_reject:
  "\<not> is_done op \<Longrightarrow> poll n op = Inl e \<Longrightarrow>
   poll_loop poll key n op tr = Some (Inl e, tr @ [SetTimeout 10000, GetVideosOperation key op])"
  by (subst poll_loop.simps) (simp add: poll_iteration_def)

lemma poll_loop_step:
  "\<not> is_done op \<Longrightarrow> poll n op = Inr op' \<Longrightarrow>
   poll_loop poll key n op tr
     = poll_loop poll key (Suc n) op' (tr @ [SetTimeout 10000, GetVideosOperation key op])"
  by (subst poll_loop.simps) (simp add: poll_iteration_def)

lemma poll_loop_ends:
  "ends_loop (operation_after poll n op k) \<Longrightarrow>
   (\<forall>j<k. \<not> ends_loop (operation_after poll n op j)) \<Longrightarrow>
   poll_loop poll key n op tr
     = Some (operation_after poll n op k, tr @ polls_trace poll key n op k)"
proof (induction k arbitrary: n op tr)
  case 0
  then show ?case
    by (subst poll_loop.simps) (simp add: ends_loop_def)
next
  case (Suc k)
  from Suc.prems(2) have nd: "\<not> is_done op"
    by (auto simp: ends_loop_def dest: spec [of _ 0])
  show ?case
  proof (cases "poll n op")
    case (Inl e)
    have "k = 0"
    proof (rule ccontr)
      assume "k \<noteq> 0"
      then have "Suc 0 < Suc k" by simp
      with Suc.prems(2) have "\<not> ends_loop (operation_after poll n op (Suc 0))" by blast
      with Inl show False by (simp add: ends_loop_def)
    qed
    with Inl nd show ?thesis
      by (subst poll_loop.simps) (simp add: poll_iteration_def)
  next
    case (Inr op')
    from Suc.prems(1) Inr have e: "ends_loop (operation_after poll (Suc n) op' k)" by simp
    have l: "\<forall>j<k. \<not> ends_loop (operation_after poll (Suc n) op' j)"
    proof (intro allI impI)
      fix j assume "j < k"
      then have "Suc j < Suc k" by simp
      with Suc.prems(2) have "\<not> ends_loop (operation_after poll n op (Suc j))" by blast
      with Inr show "\<not> ends_loop (operation_after poll (Suc n) op' j)" by simp
    qed
    from Suc.IH [OF e l] Inr nd show ?thesis
      by (subst poll_loop.simps) (simp add: poll_iteration_def)
  qed
qed



lemma poll_loop_returns:
  assumes ret: "poll_loop poll key n op tr = Some y"
  shows "\<exists>k. ends_loop (operation_after poll n op k)
     \<and> (\<forall>j<k. \<not> ends_loop (operation_after poll n op j))
     \<and> y = (operation_after poll n op k, tr @ polls_trace poll key n op k)"
proof -
  let ?P = "\<lambda>poll key n op tr y. \<exists>k. ends_loop (operation_after poll n op k)
     \<and> (\<forall>j<k. \<not> ends_loop (operation_after poll n op j))
     \<and> y = (operation_after poll n op k, tr @ polls_trace poll key n op k)"
  have "?P poll key n op tr y"
  proof (rule poll_loop.raw_induct [where P = ?P, OF _ ret])
    fix f poll key n op tr y
    assume IH: "\<And>poll key n op tr y. f poll key n op tr = Some y \<Longrightarrow> ?P poll key n op tr y"
    assume body: "(if is_done op then Some (Inr op, tr)
             else case poll_iteration poll key n op of
                  (Inl e, evs) \<Rightarrow> Some (Inl e, tr @ evs)
                  | (Inr operation', evs) \<Rightarrow> f poll key (Suc n) operation' (tr @ evs)) = Some y"
    show "?P poll key n op tr y"
    proof (cases "is_done op")
      case True
      with body have "y = (Inr op, tr)" by simp
      with True show ?thesis
        by (intro exI [of _ 0]) (simp add: ends_loop_def)
    next
      case nd: False
      show ?thesis
      proof (cases "poll n op")
        case (Inl e)
        with nd body have "y = (Inl e, tr @ [SetTimeout 10000, GetVideosOperation key op])"
          by (simp add: poll_iteration_def)
        with Inl nd show ?thesis
          by (intro exI [of _ "Suc 0"]) (simp add: ends_loop_def)
      next
        case (Inr op')
        with nd body
        have "f poll key (Suc n) op' (tr @ [SetTimeout 10000, GetVideosOperation key op]) = Some y"
          by (simp add: poll_iteration_def)
        from IH [OF this] obtain k where
          k1: "ends_loop (operation_after poll (Suc n) op' k)" and
          k2: "\<forall>j<k. \<not> ends_loop (operation_after poll (Suc n) op' j)" and
          k3: "y = (operation_after poll (Suc n) op' k,
                 (tr @ [SetTimeout 10000, GetVideosOperation key op]) @ polls_trace poll key (Suc n) op' k)"
          by blast
        have "\<forall>j<Suc k. \<not> ends_loop (operation_after poll n op j)"
        proof (intro allI impI)
          fix j assume j: "j < Suc k"
          show "\<not> ends_loop (operation_after poll n op j)"
          proof (cases j)
            case 0
            with nd show ?thesis by (simp add: ends_loop_def)
          next
            case (Suc i)
            with j k2 Inr show ?thesis by simp
          qed
        qed
        with k1 k3 Inr show ?thesis
          by (intro exI [of _ "Suc k"]) simp
      qed
    qed
  qed
  then show ?thesis .
qed

section \<open>The paths of a call\<close>

lemma generateVideoFromImage_cases:
  assumes "generateVideoFromImage w params s = Some (r, s', tr)"
  obtains
    (not_initialized) "\<not> isInitialized s"
      "r = Inl (Error (Some ''Application is not initialized. Please select an API key if prompted.''))"
      "s' = s" "tr = []"
  | (no_key) e where "isInitialized s" "getApiKey w s = (Inl e, s', tr)" "r = Inl e"
  | (create_rejected) key s1 tr1 e where "isInitialized s" "getApiKey w s = (Inr key, s1, tr1)"
      "generateVideos w key params = Inl e" "r = Inl e" "s' = catch_block w e s1"
      "tr = tr1 @ [SetLoadingMessage ''Initializing animation sequence...'', GenerateVideos key params]"
  | (poll_rejected) key s1 tr1 op0 e trp where "isInitialized s" "getApiKey w s = (Inr key, s1, tr1)"
      "generateVideos w key params = Inr op0"
      "poll_loop (getVideosOperation w) key 0 op0 [] = Some (Inl e, trp)"
      "r = Inl e" "s' = catch_block w e (snd (setInterval s1))"
      "tr = tr1 @ [SetLoadingMessage ''Initializing animation sequence...'', GenerateVideos key params,
                   SetInterval (fst (setInterval s1)) 5000,
                   SetLoadingMessage ''The animation portal is open. Generating video...''] @ trp"
  | (loop_left) key s1 tr1 op0 op trp trd where "isInitialized s" "getApiKey w s = (Inr key, s1, tr1)"
      "generateVideos w key params = Inr op0"
      "poll_loop (getVideosOperation w) key 0 op0 [] = Some (Inr op, trp)"
      "download w key op = (r, trd)"
      "s' = (case r of
               Inl e \<Rightarrow> catch_block w e (clearInterval (fst (setInterval s1)) (snd (setInterval s1)))
             | Inr url \<Rightarrow> clearInterval (fst (setInterval s1)) (snd (setInterval s1)))"
      "tr = tr1 @ [SetLoadingMessage ''Initializing animation sequence...'', GenerateVideos key params,
                   SetInterval (fst (setInterval s1)) 5000,
                   SetLoadingMessage ''The animation portal is open. Generating video...''] @ trp
               @ [ClearInterval (fst (setInterval s1)), SetLoadingMessage ''Finalizing your video...'']
               @ trd"
  using assms
  unfolding generateVideoFromImage_def Let_def
  by (auto split: if_splits prod.splits sum.splits option.splits)

lemma generateVideoFromImage_create_rejected:
  assumes "isInitialized s" "getApiKey w s = (Inr key, s1, tr1)"
    "generateVideos w key params = Inl e"
  shows "generateVideoFromImage w params s =
     Some (Inl e, catch_block w e s1,
           tr1 @ [SetLoadingMessage ''Initializing animation sequence...'', GenerateVideos key params])"
  using assms by (simp add: generateVideoFromImage_def)

lemma generateVideoFromImage_poll_rejected:
  assumes "isInitialized s" "getApiKey w s = (Inr key, s1, tr1)"
    "generateVideos w key params = Inr op0"
    "poll_loop (getVideosOperation w) key 0 op0 [] = Some (Inl e, trp)"
  shows "generateVideoFromImage w params s =
     Some (Inl e, catch_block w e (snd (setInterval s1)),
           tr1 @ [SetLoadingMessage ''Initializing animation sequence...'', GenerateVideos key params,
                  SetInterval (fst (setInterval s1)) 5000,
                  SetLoadingMessage ''The animation portal is open. Generating video...''] @ trp)"
  using assms by (simp add: generateVideoFromImage_def split: prod.splits)

lemma generateVideoFromImage_loop_left:
  assumes "isInitialized s" "getApiKey w s = (Inr key, s1, tr1)"
    "generateVideos w key params = Inr op0"
    "poll_loop (getVideosOperation w) key 0 op0 [] = Some (Inr op, trp)"
    "download w key op = (r, trd)"
  shows "generateVideoFromImage w params s =
     Some (r,
           (case r of
              Inl e \<Rightarrow> catch_block w e (clearInterval (fst (setInterval s1)) (snd (setInterval s1)))
            | Inr url \<Rightarrow> clearInterval (fst (setInterval s1)) (snd (setInterval s1))),
           tr1 @ [SetLoadingMessage ''Initializing animation sequence...'', GenerateVideos key params,
                  SetInterval (fst (setInterval s1)) 5000,
                  SetLoadingMessage ''The animation portal is open. Generating video...''] @ trp
               @ [ClearInterval (fst (setInterval s1)), SetLoadingMessage ''Finalizing your video...'']
               @ trd)"
  using assms by (simp add: generateVideoFromImage_def Let_def split: prod.splits sum.splits)

lemmas world_simps =
  offline_def ready_state_def running_def monster_def
  getApiKey_def isAiStudio_def setInterval_def clearInterval_def catch_block_def
  message_includes_def str_includes_def is_done_def download_def downloadLink_def
  sublist_code

lemma run_done_without_video:
  "generateVideoFromImage done_without_video monster ready_state =
     Some (Inl (Error (Some ''Video generation failed to produce a download link.'')),
           ready_state\<lparr>nextIntervalId := 2\<rparr>,
           [SetLoadingMessage ''Initializing animation sequence...'',
            GenerateVideos ''KEY'' monster,
            SetInterval 1 5000,
            SetLoadingMessage ''The animation portal is open. Generating video...'',
            SetTimeout 10000,
            GetVideosOperation ''KEY'' running,
            ClearInterval 1,
            SetLoadingMessage ''Finalizing your video...''])"
proof -
  have i: "isInitialized ready_state"
    by (simp add: ready_state_def)
  have k: "getApiKey done_without_video ready_state = (Inr ''KEY'', ready_state, [])"
    by (simp add: done_without_video_def world_simps)
  have c: "generateVideos done_without_video ''KEY'' monster = Inr running"
    by (simp add: done_without_video_def)
  have l: "poll_loop (getVideosOperation done_without_video) ''KEY'' 0 running []
      = Some (Inr (running\<lparr>done_flag := Some True\<rparr>),
              [] @ [SetTimeout 10000, GetVideosOperation ''KEY'' running])"
    by (simp add: poll_loop_step [where op' = "running\<lparr>done_flag := Some True\<rparr>"]
        poll_loop_done done_without_video_def is_done_def running_def)
  have d: "download done_without_video ''KEY'' (running\<lparr>done_flag := Some True\<rparr>)
      = (Inl (Error (Some ''Video generation failed to produce a download link.'')), [])"
    by (simp add: download_def downloadLink_def running_def)
  show ?thesis
    by (simp add: generateVideoFromImage_loop_left [OF i k c l d])
      (simp add: done_without_video_def world_simps)
qed

lemma run_poll_rejected:
  "generateVideoFromImage poll_rejected monster ready_state =
     Some (Inl (Error (Some ''Failed to fetch'')),
           ready_state\<lparr>activeIntervals := [1], nextIntervalId := 2\<rparr>,
           [SetLoadingMessage ''Initializing animation sequence...'',
            GenerateVideos ''KEY'' monster,
            SetInterval 1 5000,
            SetLoadingMessage ''The animation portal is open. Generating video...'',
            SetTimeout 10000,
            GetVideosOperation ''KEY'' running])"
proof -
  have i: "isInitialized ready_state"
    by (simp add: ready_state_def)
  have k: "getApiKey poll_rejected ready_state = (Inr ''KEY'', ready_state, [])"
    by (simp add: poll_rejected_def world_simps)
  have c: "generateVideos poll_rejected ''KEY'' monster = Inr running"
    by (simp add: poll_rejected_def)
  have l: "poll_loop (getVideosOperation poll_rejected) ''KEY'' 0 running []
      = Some (Inl (Error (Some ''Failed to fetch'')),
              [] @ [SetTimeout 10000, GetVideosOperation ''KEY'' running])"
    by (simp add: poll_loop_reject [where e = "Error (Some ''Failed to fetch'')"]
        poll_rejected_def offline_def is_done_def running_def)
  show ?thesis
    by (simp add: generateVideoFromImage_poll_rejected [OF i k c l])
      (simp add: poll_rejected_def world_simps)
qed

lemma run_steady:
  "generateVideoFromImage steady monster ready_state =
     Some (Inr ''blob:video'',
           ready_state\<lparr>nextIntervalId := 2\<rparr>,
           [SetLoadingMessage ''Initializing animation sequence...'',
            GenerateVideos ''KEY'' monster,
            SetInterval 1 5000,
            SetLoadingMessage ''The animation portal is open. Generating video...'',
            SetTimeout 10000,
            GetVideosOperation ''KEY'' running,
            SetTimeout 10000,
            GetVideosOperation ''KEY'' (running\<lparr>metadata := Some ''33%''\<rparr>),
            SetTimeout 10000,
            GetVideosOperation ''KEY'' (running\<lparr>metadata := Some ''66%''\<rparr>),
            ClearInterval 1,
            SetLoadingMessage ''Finalizing your video...'',
            FetchVideo ''https://videos/1?alt=media&key=KEY'',
            CreateObjectURL [0, 0, 0, 24]])"
proof -
  let ?op1 = "running\<lparr>metadata := Some ''33%''\<rparr>"
  let ?op2 = "running\<lparr>metadata := Some ''66%''\<rparr>"
  let ?op3 = "running\<lparr>done_flag := Some True, metadata := Some ''100%'',
      response := Some \<lparr>generatedVideos =
        Some [\<lparr>video = Some \<lparr>uri = Some ''https://videos/1?alt=media''\<rparr>\<rparr>]\<rparr>\<rparr>"
  have i: "isInitialized ready_state"
    by (simp add: ready_state_def)
  have k: "getApiKey steady ready_state = (Inr ''KEY'', ready_state, [])"
    by (simp add: steady_def world_simps)
  have c: "generateVideos steady ''KEY'' monster = Inr running"
    by (simp add: steady_def)
  have p0: "getVideosOperation steady 0 running = Inr ?op1"
    by (simp add: steady_def)
  have p1: "getVideosOperation steady (Suc 0) ?op1 = Inr ?op2"
    by (simp add: steady_def)
  have p2: "getVideosOperation steady (Suc (Suc 0)) ?op2 = Inr ?op3"
    by (simp add: steady_def)
  have n0: "\<not> is_done running"
    by (simp add: is_done_def running_def)
  have n1: "\<not> is_done ?op1"
    by (simp add: is_done_def running_def)
  have n2: "\<not> is_done ?op2"
    by (simp add: is_done_def running_def)
  have f: "is_done ?op3"
    by (simp add: is_done_def)
  have l: "poll_loop (getVideosOperation steady) ''KEY'' 0 running []
      = Some (Inr ?op3,
              (([] @ [SetTimeout 10000, GetVideosOperation ''KEY'' running])
                @ [SetTimeout 10000, GetVideosOperation ''KEY'' ?op1])
                @ [SetTimeout 10000, GetVideosOperation ''KEY'' ?op2])"
    by (simp only: poll_loop_step [where poll = "getVideosOperation steady", OF n0 p0]
        poll_loop_step [where poll = "getVideosOperation steady", OF n1 p1]
        poll_loop_step [where poll = "getVideosOperation steady", OF n2 p2]
        poll_loop_done [OF f])
  have d: "download steady ''KEY'' ?op3
      = (Inr ''blob:video'',
         [FetchVideo ''https://videos/1?alt=media&key=KEY'', CreateObjectURL [0, 0, 0, 24]])"
    by (simp add: download_def downloadLink_def running_def steady_def video_file_def
        offline_def)
  show ?thesis
    by (simp add: generateVideoFromImage_loop_left [OF i k c l d])
      (simp add: setInterval_def clearInterval_def ready_state_def)
qed

section \<open>The events of a call\<close>

lemma getApiKey_trace: "getApiKey w s = (r, s', tr) \<Longrightarrow> tr = [] \<or> tr = [FetchKey]"
  by (auto simp: getApiKey_def fetchApiKey_def split: if_splits option.splits sum.splits)

lemma download_trace:
  "download w key op = (r, tr) \<Longrightarrow>
   tr = [] \<or> tr = [FetchVideo (the (downloadLink op) @ ''&key='' @ key)]
   \<or> (\<exists>b. tr = [FetchVideo (the (downloadLink op) @ ''&key='' @ key), CreateObjectURL b])"
  by (auto simp: download_def Let_def truthy_def split: if_splits option.splits sum.splits)

lemma alternates_append:
  "alternates d xs \<Longrightarrow> alternates d ys \<Longrightarrow> alternates d (xs @ ys)"
  by (induction d xs rule: alternates.induct) simp_all

lemma alternates_polls_trace: "alternates 10000 (polls_trace poll key n op k)"
  by (induction k arbitrary: n op) (simp_all split: sum.splits)

lemma submitted_append: "submitted (xs @ ys) = submitted xs @ submitted ys"
  by (induction xs rule: submitted.induct) simp_all

lemma resubmits_polls_trace: "resubmits poll n op (submitted (polls_trace poll key n op k))"
  by (induction k arbitrary: n op) (simp_all split: sum.splits)

lemma poll_loop_trace:
  assumes "poll_loop poll key n op [] = Some (r, trp)"
  shows "\<exists>k. trp = polls_trace poll key n op k"
  using poll_loop_returns [OF assms] by auto

text \<open>
  C7: in every call the waits and the polls strictly alternate, and every wait is a timeout
  of 10000 ms, the same in all iterations. Each iteration of the loop waits once and polls
  once, and a rejected poll is not tried again: the loop ends with its error.
\<close>

theorem C7_fixed_delay:
  "(generateVideoFromImage w params s = Some (r, s', tr) \<longrightarrow> alternates 10000 tr)
   \<and> snd (poll_iteration poll key n op) = [SetTimeout 10000, GetVideosOperation key op]
   \<and> (\<not> is_done op \<and> poll n op = Inl e \<longrightarrow>
        poll_loop poll key n op tr0
          = Some (Inl e, tr0 @ [SetTimeout 10000, GetVideosOperation key op]))"
proof (intro conjI impI)
  assume "generateVideoFromImage w params s = Some (r, s', tr)"
  then show "alternates 10000 tr"
  proof (cases rule: generateVideoFromImage_cases)
    case not_initialized
    then show ?thesis by simp
  next
    case (no_key e)
    from getApiKey_trace [OF no_key(2)] show ?thesis by auto
  next
    case (create_rejected key s1 tr1 e)
    from getApiKey_trace [OF create_rejected(2)] create_rejected(6) show ?thesis by auto
  next
    case (poll_rejected key s1 tr1 op0 e trp)
    from poll_loop_trace [OF poll_rejected(4)] obtain k
      where "trp = polls_trace (getVideosOperation w) key 0 op0 k" by blast
    then have "alternates 10000 trp" by (simp add: alternates_polls_trace)
    with getApiKey_trace [OF poll_rejected(2)] poll_rejected(7) show ?thesis by auto
  next
    case (loop_left key s1 tr1 op0 op trp trd)
    from poll_loop_trace [OF loop_left(4)] obtain k
      where "trp = polls_trace (getVideosOperation w) key 0 op0 k" by blast
    then have a: "alternates 10000 trp" by (simp add: alternates_polls_trace)
    from download_trace [OF loop_left(5)]
    have "alternates 10000 ([ClearInterval (fst (setInterval s1)),
             SetLoadingMessage ''Finalizing your video...''] @ trd)" by auto
    from alternates_append [OF a this] getApiKey_trace [OF loop_left(2)] loop_left(7)
    show ?thesis by auto
  qed
next
  show "snd (poll_iteration poll key n op) = [SetTimeout 10000, GetVideosOperation key op]"
    by (simp add: poll_iteration_def)
next
  assume "\<not> is_done op \<and> poll n op = Inl e"
  then show "poll_loop poll key n op tr0
      = Some (Inl e, tr0 @ [SetTimeout 10000, GetVideosOperation key op])"
    by (simp add: poll_loop_reject)
qed

theorem C7_fixed_delay_witness:
  "generateVideoFromImage steady monster ready_state
     = Some (Inr ''blob:video'', ready_state\<lparr>nextIntervalId := 2\<rparr>,
           [SetLoadingMessage ''Initializing animation sequence...'',
            GenerateVideos ''KEY'' monster,
            SetInterval 1 5000,
            SetLoadingMessage ''The animation portal is open. Generating video...'',
            SetTimeout 10000,
            GetVideosOperation ''KEY'' running,
            SetTimeout 10000,
            GetVideosOperation ''KEY'' (running\<lparr>metadata := Some ''33%''\<rparr>),
            SetTimeout 10000,
            GetVideosOperation ''KEY'' (running\<lparr>metadata := Some ''66%''\<rparr>),
            ClearInterval 1,
            SetLoadingMessage ''Finalizing your video...'',
            FetchVideo ''https://videos/1?alt=media&key=KEY'',
            CreateObjectURL [0, 0, 0, 24]])
   \<and> alternates 10000
          [SetLoadingMessage ''Initializing animation sequence...'',
            GenerateVideos ''KEY'' monster,
            SetInterval 1 5000,
            SetLoadingMessage ''The animation portal is open. Generating video...'',
            SetTimeout 10000,
            GetVideosOperation ''KEY'' running,
            SetTimeout 10000,
            GetVideosOperation ''KEY'' (running\<lparr>metadata := Some ''33%''\<rparr>),
            SetTimeout 10000,
            GetVideosOperation ''KEY'' (running\<lparr>metadata := Some ''66%''\<rparr>),
            ClearInterval 1,
            SetLoadingMessage ''Finalizing your video...'',
            FetchVideo ''https://videos/1?alt=media&key=KEY'',
            CreateObjectURL [0, 0, 0, 24]]
   \<and> snd (poll_iteration (getVideosOperation steady) ''KEY'' (Suc 0)
            (running\<lparr>metadata := Some ''33%''\<rparr>))
       = [SetTimeout 10000, GetVideosOperation ''KEY'' (running\<lparr>metadata := Some ''33%''\<rparr>)]
   \<and> \<not> is_done running
   \<and> getVideosOperation poll_rejected 0 running = Inl (Error (Some ''Failed to fetch''))
   \<and> poll_loop (getVideosOperation poll_rejected) ''KEY'' 0 running []
       = Some (Inl (Error (Some ''Failed to fetch'')),
               [SetTimeout 10000, GetVideosOperation ''KEY'' running])"
proof -
  have nd: "\<not> is_done running"
    by (simp add: is_done_def running_def)
  have rej: "getVideosOperation poll_rejected 0 running = Inl (Error (Some ''Failed to fetch''))"
    by (simp add: poll_rejected_def offline_def)
  note C = C7_fixed_delay [where w = steady and params = monster and s = ready_state
      and poll = "getVideosOperation steady" and key = "''KEY''" and n = "Suc 0"
      and op = "running\<lparr>metadata := Some ''33%''\<rparr>"]
  note D = C7_fixed_delay [where poll = "getVideosOperation poll_rejected" and key = "''KEY''"
      and n = 0 and op = running and e = "Error (Some ''Failed to fetch'')" and ?tr0.0 = "[]"]
  note waits = mp [OF C [THEN conjunct1] run_steady]
  note body = C [THEN conjunct2, THEN conjunct1]
  note once = mp [OF D [THEN conjunct2, THEN conjunct2] conjI [OF nd rej]]
  from run_steady waits body nd rej once show ?thesis
    by (simp only: append_Nil simp_thms)
qed

section \<open>The operation submitted by each poll\<close>

lemma run_progressing:
  "generateVideoFromImage progressing monster ready_state =
     Some (Inr ''blob:video'',
           ready_state\<lparr>nextIntervalId := 2\<rparr>,
           [SetLoadingMessage ''Initializing animation sequence...'',
            GenerateVideos ''KEY'' monster,
            SetInterval 1 5000,
            SetLoadingMessage ''The animation portal is open. Generating video...'',
            SetTimeout 10000,
            GetVideosOperation ''KEY'' running,
            SetTimeout 10000,
            GetVideosOperation ''KEY'' (running\<lparr>name := ''operations/1b'', metadata := Some ''50%''\<rparr>),
            ClearInterval 1,
            SetLoadingMessage ''Finalizing your video...'',
            FetchVideo ''https://videos/1?alt=media&key=KEY'',
            CreateObjectURL [0, 0, 0, 24]])"
proof -
  let ?op1 = "running\<lparr>name := ''operations/1b'', metadata := Some ''50%''\<rparr>"
  have i: "isInitialized ready_state"
    by (simp add: ready_state_def)
  have k: "getApiKey progressing ready_state = (Inr ''KEY'', ready_state, [])"
    by (simp add: progressing_def world_simps)
  have c: "generateVideos progressing ''KEY'' monster = Inr running"
    by (simp add: progressing_def)
  have p0: "getVideosOperation progressing 0 running = Inr ?op1"
    by (simp add: progressing_def)
  have p1: "getVideosOperation progressing (Suc 0) ?op1 = Inr finished"
    by (simp add: progressing_def)
  have n0: "\<not> is_done running"
    by (simp add: is_done_def running_def)
  have n1: "\<not> is_done ?op1"
    by (simp add: is_done_def running_def)
  have f: "is_done finished"
    by (simp add: is_done_def finished_def)
  have l: "poll_loop (getVideosOperation progressing) ''KEY'' 0 running []
      = Some (Inr finished,
              ([] @ [SetTimeout 10000, GetVideosOperation ''KEY'' running])
                @ [SetTimeout 10000, GetVideosOperation ''KEY'' ?op1])"
    by (simp only: poll_loop_step [where poll = "getVideosOperation progressing", OF n0 p0]
        poll_loop_step [where poll = "getVideosOperation progressing", OF n1 p1]
        poll_loop_done [OF f])
  have d: "download progressing ''KEY'' finished
      = (Inr ''blob:video'',
         [FetchVideo ''https://videos/1?alt=media&key=KEY'', CreateObjectURL [0, 0, 0, 24]])"
    by (simp add: download_def downloadLink_def finished_def progressing_def video_file_def
        offline_def)
  show ?thesis
    by (simp add: generateVideoFromImage_loop_left [OF i k c l d])
      (simp add: setInterval_def clearInterval_def ready_state_def)
qed

lemma resubmits_same_name:
  "resubmits poll n op0 ops \<Longrightarrow>
   (\<And>n op op'. poll n op = Inr op' \<Longrightarrow> name op' = name op) \<Longrightarrow>
   \<forall>op \<in> set ops. name op = name op0"
proof (induction ops arbitrary: n op0)
  case Nil
  then show ?case by simp
next
  case (Cons a ops)
  show ?case
  proof (cases "poll n a")
    case (Inl e)
    with Cons.prems(1) show ?thesis by simp
  next
    case (Inr op')
    with Cons.prems(1) have a: "a = op0" and r: "resubmits poll (Suc n) op' ops" by simp_all
    from Cons.prems(2) [OF Inr] have "name op' = name a" .
    with Cons.IH [OF r Cons.prems(2)] a show ?thesis by simp
  qed
qed

lemma submitted_getApiKey: "getApiKey w s = (r, s', tr) \<Longrightarrow> submitted tr = []"
  by (auto dest: getApiKey_trace)

lemma submitted_download: "download w key op = (r, tr) \<Longrightarrow> submitted tr = []"
  by (auto dest: download_trace)

lemma submitted_generateVideoFromImage:
  assumes run: "generateVideoFromImage w params s = Some (r, s', tr)"
    and key: "getApiKey w s = (Inr key, s1, tr1)"
    and create: "generateVideos w key params = Inr op0"
  shows "\<exists>k. submitted tr = submitted (polls_trace (getVideosOperation w) key 0 op0 k)"
  using run
proof (cases rule: generateVideoFromImage_cases)
  case not_initialized
  then show ?thesis by (intro exI [of _ 0]) simp
next
  case (no_key e)
  with key show ?thesis by simp
next
  case (create_rejected key' s1' tr1' e)
  with key create show ?thesis by simp
next
  case (poll_rejected key' s1' tr1' op0' e trp)
  with key create have eq: "key' = key" "op0' = op0" "tr1' = tr1" by simp_all
  from poll_loop_trace [OF poll_rejected(4)] eq obtain k
    where "trp = polls_trace (getVideosOperation w) key 0 op0 k" by blast
  with poll_rejected(7) eq submitted_getApiKey [OF key] show ?thesis
    by (intro exI [of _ k]) (simp add: submitted_append)
next
  case (loop_left key' s1' tr1' op0' op trp trd)
  with key create have eq: "key' = key" "op0' = op0" "tr1' = tr1" by simp_all
  from poll_loop_trace [OF loop_left(4)] eq obtain k
    where "trp = polls_trace (getVideosOperation w) key 0 op0 k" by blast
  with loop_left(7) eq submitted_getApiKey [OF key] submitted_download [OF loop_left(5)]
  show ?thesis
    by (intro exI [of _ k]) (simp add: submitted_append)
qed

text \<open>
  C5, as stated, fails: the second poll of this call submits the operation that the first
  poll returned, which is not the one the create call returned.
\<close>

theorem C5_second_poll_counterexample:
  "generateVideos progressing ''KEY'' monster = Inr running
   \<and> map_option (\<lambda>(r, s', tr). submitted tr)
        (generateVideoFromImage progressing monster ready_state)
       = Some [running, running\<lparr>name := ''operations/1b'', metadata := Some ''50%''\<rparr>]
   \<and> running\<lparr>name := ''operations/1b'', metadata := Some ''50%''\<rparr> \<noteq> running
   \<and> name (running\<lparr>name := ''operations/1b'', metadata := Some ''50%''\<rparr>) \<noteq> name running"
  by (simp add: run_progressing) (simp add: progressing_def running_def)

text \<open>
  C5, amended: every poll of a call submits, unchanged, the operation the remote service
  returned last: the first poll the operation of the create call, every later poll the
  operation the poll before it returned. When the remote service keeps the name in each
  answer, every poll carries the name that the create call returned.
\<close>

theorem C5_resubmits_latest:
  assumes "generateVideoFromImage w params s = Some (r, s', tr)"
    and "getApiKey w s = (Inr key, s1, tr1)"
    and "generateVideos w key params = Inr op0"
  shows "resubmits (getVideosOperation w) 0 op0 (submitted tr)
    \<and> ((\<forall>n op op'. getVideosOperation w n op = Inr op' \<longrightarrow> name op' = name op)
         \<longrightarrow> (\<forall>op \<in> set (submitted tr). name op = name op0))"
proof -
  from submitted_generateVideoFromImage [OF assms] obtain k
    where "submitted tr = submitted (polls_trace (getVideosOperation w) key 0 op0 k)" ..
  then have r: "resubmits (getVideosOperation w) 0 op0 (submitted tr)"
    by (simp add: resubmits_polls_trace)
  with resubmits_same_name [OF r] show ?thesis by blast
qed

theorem C5_resubmits_latest_witness:
  "generateVideoFromImage steady monster ready_state
     = Some (Inr ''blob:video'', ready_state\<lparr>nextIntervalId := 2\<rparr>,
           [SetLoadingMessage ''Initializing animation sequence...'',
            GenerateVideos ''KEY'' monster,
            SetInterval 1 5000,
            SetLoadingMessage ''The animation portal is open. Generating video...'',
            SetTimeout 10000,
            GetVideosOperation ''KEY'' running,
            SetTimeout 10000,
            GetVideosOperation ''KEY'' (running\<lparr>metadata := Some ''33%''\<rparr>),
            SetTimeout 10000,
            GetVideosOperation ''KEY'' (running\<lparr>metadata := Some ''66%''\<rparr>),
            ClearInterval 1,
            SetLoadingMessage ''Finalizing your video...'',
            FetchVideo ''https://videos/1?alt=media&key=KEY'',
            CreateObjectURL [0, 0, 0, 24]])
   \<and> getApiKey steady ready_state = (Inr ''KEY'', ready_state, [])
   \<and> generateVideos steady ''KEY'' monster = Inr running
   \<and> getVideosOperation steady 0 running = Inr (running\<lparr>metadata := Some ''33%''\<rparr>)
   \<and> getVideosOperation steady (Suc 0) (running\<lparr>metadata := Some ''33%''\<rparr>)
       = Inr (running\<lparr>metadata := Some ''66%''\<rparr>)
   \<and> resubmits (getVideosOperation steady) 0 running
        [running, running\<lparr>metadata := Some ''33%''\<rparr>, running\<lparr>metadata := Some ''66%''\<rparr>]
   \<and> map name
        [running, running\<lparr>metadata := Some ''33%''\<rparr>, running\<lparr>metadata := Some ''66%''\<rparr>]
       = [name running, name running, name running]
   \<and> running\<lparr>metadata := Some ''33%''\<rparr> \<noteq> running
   \<and> running\<lparr>metadata := Some ''66%''\<rparr> \<noteq> running\<lparr>metadata := Some ''33%''\<rparr>"
proof -
  let ?tr = "[SetLoadingMessage ''Initializing animation sequence...'',
            GenerateVideos ''KEY'' monster,
            SetInterval 1 5000,
            SetLoadingMessage ''The animation portal is open. Generating video...'',
            SetTimeout 10000,
            GetVideosOperation ''KEY'' running,
            SetTimeout 10000,
            GetVideosOperation ''KEY'' (running\<lparr>metadata := Some ''33%''\<rparr>),
            SetTimeout 10000,
            GetVideosOperation ''KEY'' (running\<lparr>metadata := Some ''66%''\<rparr>),
            ClearInterval 1,
            SetLoadingMessage ''Finalizing your video...'',
            FetchVideo ''https://videos/1?alt=media&key=KEY'',
            CreateObjectURL [0, 0, 0, 24]]"
  have k: "getApiKey steady ready_state = (Inr ''KEY'', ready_state, [])"
    by (simp add: steady_def world_simps)
  have c: "generateVideos steady ''KEY'' monster = Inr running"
    by (simp add: steady_def)
  have p0: "getVideosOperation steady 0 running = Inr (running\<lparr>metadata := Some ''33%''\<rparr>)"
    by (simp add: steady_def)
  have p1: "getVideosOperation steady (Suc 0) (running\<lparr>metadata := Some ''33%''\<rparr>)
      = Inr (running\<lparr>metadata := Some ''66%''\<rparr>)"
    by (simp add: steady_def)
  have keeps: "\<forall>n op op'. getVideosOperation steady n op = Inr op' \<longrightarrow> name op' = name op"
    by (auto simp: steady_def split: if_splits)
  have sub: "submitted ?tr
      = [running, running\<lparr>metadata := Some ''33%''\<rparr>, running\<lparr>metadata := Some ''66%''\<rparr>]"
    by simp
  have differ: "running\<lparr>metadata := Some ''33%''\<rparr> \<noteq> running"
    "running\<lparr>metadata := Some ''66%''\<rparr> \<noteq> running\<lparr>metadata := Some ''33%''\<rparr>"
    by (simp_all add: running_def)
  note C = C5_resubmits_latest [OF run_steady k c]
  from C [THEN conjunct1] sub
  have chain: "resubmits (getVideosOperation steady) 0 running
        [running, running\<lparr>metadata := Some ''33%''\<rparr>, running\<lparr>metadata := Some ''66%''\<rparr>]"
    by (simp only:)
  from mp [OF C [THEN conjunct2] keeps] sub
  have "\<forall>op \<in> set [running, running\<lparr>metadata := Some ''33%''\<rparr>,
      running\<lparr>metadata := Some ''66%''\<rparr>]. name op = name running"
    by (simp only:)
  then have names: "map name
        [running, running\<lparr>metadata := Some ''33%''\<rparr>, running\<lparr>metadata := Some ''66%''\<rparr>]
       = [name running, name running, name running]"
    by simp
  from run_steady k c p0 p1 chain names differ show ?thesis
    by (simp only: simp_thms)
qed

section \<open>When the poll loop ends\<close>

lemma ends_loop_least:
  assumes "ends_loop (operation_after poll n op k)"
  shows "\<exists>k. ends_loop (operation_after poll n op k)
    \<and> (\<forall>j<k. \<not> ends_loop (operation_after poll n op j))"
proof -
  let ?P = "\<lambda>k. ends_loop (operation_after poll n op k)"
  from assms have "?P (LEAST k. ?P k)" by (rule LeastI)
  moreover have "\<forall>j<(LEAST k. ?P k). \<not> ?P j"
    using not_less_Least by blast
  ultimately show ?thesis by blast
qed

text \<open>
  C1, as stated, fails twice. In the first call a response with the flag set is observed,
  and the call throws without a download: no \<open>FetchVideo\<close> is among its events. In the
  second call the loop is left by a rejected poll, and no operation was done.
\<close>

theorem C1_no_download_counterexample:
  "generateVideoFromImage done_without_video monster ready_state
     = Some (Inl (Error (Some ''Video generation failed to produce a download link.'')),
           ready_state\<lparr>nextIntervalId := 2\<rparr>,
           [SetLoadingMessage ''Initializing animation sequence...'',
            GenerateVideos ''KEY'' monster,
            SetInterval 1 5000,
            SetLoadingMessage ''The animation portal is open. Generating video...'',
            SetTimeout 10000,
            GetVideosOperation ''KEY'' running,
            ClearInterval 1,
            SetLoadingMessage ''Finalizing your video...''])
   \<and> getVideosOperation done_without_video 0 running = Inr (running\<lparr>done_flag := Some True\<rparr>)
   \<and> is_done (running\<lparr>done_flag := Some True\<rparr>)
   \<and> poll_loop (getVideosOperation poll_rejected) ''KEY'' 0 running []
       = Some (Inl (Error (Some ''Failed to fetch'')),
               [SetTimeout 10000, GetVideosOperation ''KEY'' running])
   \<and> \<not> is_done running"
proof -
  have nd: "\<not> is_done running"
    by (simp add: is_done_def running_def)
  have rej: "getVideosOperation poll_rejected 0 running = Inl (Error (Some ''Failed to fetch''))"
    by (simp add: poll_rejected_def offline_def)
  from poll_loop_reject [where poll = "getVideosOperation poll_rejected", OF nd rej, of "''KEY''" "[]"]
    nd run_done_without_video
  show ?thesis
    by (simp add: done_without_video_def is_done_def)
qed

text \<open>
  C1, amended: the poll loop returns exactly when the polling sequence reaches an
  operation whose done flag is truthy or a poll that is rejected. Until then each
  iteration waits and polls once; with the first such answer the loop makes no further
  poll. Left by a rejected poll, the call throws that error. Left with an operation that
  is done, the call clears the timer and goes on to the download, without another poll: it
  fetches the result if the operation carries a download link, and otherwise throws
  'Video generation failed to produce a download link.' without a request.
\<close>

theorem C1_poll_loop_ends:
  "((\<exists>y. poll_loop poll key 0 op0 [] = Some y) \<longleftrightarrow> (\<exists>k. ends_loop (operation_after poll 0 op0 k)))
   \<and> (poll_loop poll key 0 op0 [] = Some (r, trp) \<longrightarrow>
        ends_loop r
        \<and> (\<exists>k. r = operation_after poll 0 op0 k
              \<and> (\<forall>j<k. \<not> ends_loop (operation_after poll 0 op0 j))
              \<and> trp = polls_trace poll key 0 op0 k))
   \<and> (isInitialized s \<and> getApiKey w s = (Inr key', s1, tr1)
        \<and> generateVideos w key' params = Inr op0'
        \<and> poll_loop (getVideosOperation w) key' 0 op0' [] = Some (Inr op, trp') \<longrightarrow>
        (\<exists>s' trd.
           generateVideoFromImage w params s
             = Some (fst (download w key' op), s',
                 tr1 @ [SetLoadingMessage ''Initializing animation sequence...'',
                        GenerateVideos key' params,
                        SetInterval (nextIntervalId s1) 5000,
                        SetLoadingMessage ''The animation portal is open. Generating video...'']
                   @ trp'
                   @ [ClearInterval (nextIntervalId s1), SetLoadingMessage ''Finalizing your video...'']
                   @ trd)
           \<and> submitted trd = []
           \<and> (if truthy (downloadLink op)
               then \<exists>rest. trd = FetchVideo (the (downloadLink op) @ ''&key='' @ key') # rest
               else trd = []
                 \<and> fst (download w key' op)
                     = Inl (Error (Some ''Video generation failed to produce a download link.'')))))
   \<and> (isInitialized s \<and> getApiKey w s = (Inr key', s1, tr1)
        \<and> generateVideos w key' params = Inr op0'
        \<and> poll_loop (getVideosOperation w) key' 0 op0' [] = Some (Inl e, trp') \<longrightarrow>
        (\<exists>s'. generateVideoFromImage w params s
             = Some (Inl e, s',
                 tr1 @ [SetLoadingMessage ''Initializing animation sequence...'',
                        GenerateVideos key' params,
                        SetInterval (nextIntervalId s1) 5000,
                        SetLoadingMessage ''The animation portal is open. Generating video...'']
                   @ trp')))"
proof (intro conjI)
  show "(\<exists>y. poll_loop poll key 0 op0 [] = Some y) \<longleftrightarrow> (\<exists>k. ends_loop (operation_after poll 0 op0 k))"
  proof
    assume "\<exists>y. poll_loop poll key 0 op0 [] = Some y"
    then obtain y where "poll_loop poll key 0 op0 [] = Some y" ..
    from poll_loop_returns [OF this] show "\<exists>k. ends_loop (operation_after poll 0 op0 k)"
      by blast
  next
    assume "\<exists>k. ends_loop (operation_after poll 0 op0 k)"
    then obtain k0 where "ends_loop (operation_after poll 0 op0 k0)" ..
    from ends_loop_least [OF this] obtain k where
      "ends_loop (operation_after poll 0 op0 k)"
      "\<forall>j<k. \<not> ends_loop (operation_after poll 0 op0 j)" by blast
    from poll_loop_ends [OF this] show "\<exists>y. poll_loop poll key 0 op0 [] = Some y"
      by blast
  qed
next
  show "poll_loop poll key 0 op0 [] = Some (r, trp) \<longrightarrow>
        ends_loop r
        \<and> (\<exists>k. r = operation_after poll 0 op0 k
              \<and> (\<forall>j<k. \<not> ends_loop (operation_after poll 0 op0 j))
              \<and> trp = polls_trace poll key 0 op0 k)"
  proof
    assume "poll_loop poll key 0 op0 [] = Some (r, trp)"
    from poll_loop_returns [OF this]
    show "ends_loop r
        \<and> (\<exists>k. r = operation_after poll 0 op0 k
              \<and> (\<forall>j<k. \<not> ends_loop (operation_after poll 0 op0 j))
              \<and> trp = polls_trace poll key 0 op0 k)"
      by auto
  qed
next
  show "isInitialized s \<and> getApiKey w s = (Inr key', s1, tr1)
        \<and> generateVideos w key' params = Inr op0'
        \<and> poll_loop (getVideosOperation w) key' 0 op0' [] = Some (Inr op, trp') \<longrightarrow>
        (\<exists>s' trd.
           generateVideoFromImage w params s
             = Some (fst (download w key' op), s',
                 tr1 @ [SetLoadingMessage ''Initializing animation sequence...'',
                        GenerateVideos key' params,
                        SetInterval (nextIntervalId s1) 5000,
                        SetLoadingMessage ''The animation portal is open. Generating video...'']
                   @ trp'
                   @ [ClearInterval (nextIntervalId s1), SetLoadingMessage ''Finalizing your video...'']
                   @ trd)
           \<and> submitted trd = []
           \<and> (if truthy (downloadLink op)
               then \<exists>rest. trd = FetchVideo (the (downloadLink op) @ ''&key='' @ key') # rest
               else trd = []
                 \<and> fst (download w key' op)
                     = Inl (Error (Some ''Video generation failed to produce a download link.''))))"
  proof
    assume a: "isInitialized s \<and> getApiKey w s = (Inr key', s1, tr1)
        \<and> generateVideos w key' params = Inr op0'
        \<and> poll_loop (getVideosOperation w) key' 0 op0' [] = Some (Inr op, trp')"
    obtain rd trd where d: "download w key' op = (rd, trd)"
      by (cases "download w key' op")
    from a have i: "isInitialized s" and k: "getApiKey w s = (Inr key', s1, tr1)"
      and c: "generateVideos w key' params = Inr op0'"
      and l: "poll_loop (getVideosOperation w) key' 0 op0' [] = Some (Inr op, trp')"
      by simp_all
    have t: "if truthy (downloadLink op)
           then \<exists>rest. trd = FetchVideo (the (downloadLink op) @ ''&key='' @ key') # rest
           else trd = [] \<and> rd = Inl (Error (Some ''Video generation failed to produce a download link.''))"
      using d
      by (auto simp: download_def Let_def truthy_def split: if_splits option.splits sum.splits)
    from generateVideoFromImage_loop_left [OF i k c l d] d t submitted_download [OF d]
    show "\<exists>s' trd.
           generateVideoFromImage w params s
             = Some (fst (download w key' op), s',
                 tr1 @ [SetLoadingMessage ''Initializing animation sequence...'',
                        GenerateVideos key' params,
                        SetInterval (nextIntervalId s1) 5000,
                        SetLoadingMessage ''The animation portal is open. Generating video...'']
                   @ trp'
                   @ [ClearInterval (nextIntervalId s1), SetLoadingMessage ''Finalizing your video...'']
                   @ trd)
           \<and> submitted trd = []
           \<and> (if truthy (downloadLink op)
               then \<exists>rest. trd = FetchVideo (the (downloadLink op) @ ''&key='' @ key') # rest
               else trd = []
                 \<and> fst (download w key' op)
                     = Inl (Error (Some ''Video generation failed to produce a download link.'')))"
      by (auto simp: setInterval_def split: if_splits)
  qed
next
  show "isInitialized s \<and> getApiKey w s = (Inr key', s1, tr1)
        \<and> generateVideos w key' params = Inr op0'
        \<and> poll_loop (getVideosOperation w) key' 0 op0' [] = Some (Inl e, trp') \<longrightarrow>
        (\<exists>s'. generateVideoFromImage w params s
             = Some (Inl e, s',
                 tr1 @ [SetLoadingMessage ''Initializing animation sequence...'',
                        GenerateVideos key' params,
                        SetInterval (nextIntervalId s1) 5000,
                        SetLoadingMessage ''The animation portal is open. Generating video...'']
                   @ trp'))"
  proof
    assume a: "isInitialized s \<and> getApiKey w s = (Inr key', s1, tr1)
        \<and> generateVideos w key' params = Inr op0'
        \<and> poll_loop (getVideosOperation w) key' 0 op0' [] = Some (Inl e, trp')"
    then have i: "isInitialized s" and k: "getApiKey w s = (Inr key', s1, tr1)"
      and c: "generateVideos w key' params = Inr op0'"
      and l: "poll_loop (getVideosOperation w) key' 0 op0' [] = Some (Inl e, trp')"
      by simp_all
    from generateVideoFromImage_poll_rejected [OF i k c l]
    show "\<exists>s'. generateVideoFromImage w params s
             = Some (Inl e, s',
                 tr1 @ [SetLoadingMessage ''Initializing animation sequence...'',
                        GenerateVideos key' params,
                        SetInterval (nextIntervalId s1) 5000,
                        SetLoadingMessage ''The animation portal is open. Generating video...'']
                   @ trp')"
      by (simp add: setInterval_def)
  qed
qed

lemma loop_progressing:
  "poll_loop (getVideosOperation progressing) ''KEY'' 0 running []
     = Some (Inr finished,
             [SetTimeout 10000, GetVideosOperation ''KEY'' running,
              SetTimeout 10000,
              GetVideosOperation ''KEY'' (running\<lparr>name := ''operations/1b'', metadata := Some ''50%''\<rparr>)])"
proof -
  let ?op1 = "running\<lparr>name := ''operations/1b'', metadata := Some ''50%''\<rparr>"
  have p0: "getVideosOperation progressing 0 running = Inr ?op1"
    by (simp add: progressing_def)
  have p1: "getVideosOperation progressing (Suc 0) ?op1 = Inr finished"
    by (simp add: progressing_def)
  have n0: "\<not> is_done running"
    by (simp add: is_done_def running_def)
  have n1: "\<not> is_done ?op1"
    by (simp add: is_done_def running_def)
  have f: "is_done finished"
    by (simp add: is_done_def finished_def)
  have "poll_loop (getVideosOperation progressing) ''KEY'' 0 running []
      = Some (Inr finished,
              ([] @ [SetTimeout 10000, GetVideosOperation ''KEY'' running])
                @ [SetTimeout 10000, GetVideosOperation ''KEY'' ?op1])"
    by (simp only: poll_loop_step [where poll = "getVideosOperation progressing", OF n0 p0]
        poll_loop_step [where poll = "getVideosOperation progressing", OF n1 p1]
        poll_loop_done [OF f])
  then show ?thesis by simp
qed

theorem C1_poll_loop_ends_witness:
  "poll_loop (getVideosOperation progressing) ''KEY'' 0 running []
     = Some (Inr finished,
             [SetTimeout 10000, GetVideosOperation ''KEY'' running,
              SetTimeout 10000,
              GetVideosOperation ''KEY'' (running\<lparr>name := ''operations/1b'', metadata := Some ''50%''\<rparr>)])
   \<and> ends_loop (operation_after (getVideosOperation progressing) 0 running (Suc (Suc 0)))
   \<and> ends_loop (Inr finished)
   \<and> isInitialized ready_state
   \<and> getApiKey progressing ready_state = (Inr ''KEY'', ready_state, [])
   \<and> generateVideos progressing ''KEY'' monster = Inr running
   \<and> truthy (downloadLink finished)
   \<and> (\<exists>s' trd. generateVideoFromImage progressing monster ready_state
         = Some (fst (download progressing ''KEY'' finished), s',
             [SetLoadingMessage ''Initializing animation sequence...'',
              GenerateVideos ''KEY'' monster,
              SetInterval 1 5000,
              SetLoadingMessage ''The animation portal is open. Generating video...'',
              SetTimeout 10000, GetVideosOperation ''KEY'' running,
              SetTimeout 10000,
              GetVideosOperation ''KEY'' (running\<lparr>name := ''operations/1b'', metadata := Some ''50%''\<rparr>),
              ClearInterval 1,
              SetLoadingMessage ''Finalizing your video...'']
             @ trd)
       \<and> (\<exists>rest. trd = FetchVideo (''https://videos/1?alt=media'' @ ''&key='' @ ''KEY'') # rest))
   \<and> getApiKey poll_rejected ready_state = (Inr ''KEY'', ready_state, [])
   \<and> generateVideos poll_rejected ''KEY'' monster = Inr running
   \<and> poll_loop (getVideosOperation poll_rejected) ''KEY'' 0 running []
       = Some (Inl (Error (Some ''Failed to fetch'')),
               [SetTimeout 10000, GetVideosOperation ''KEY'' running])
   \<and> (\<exists>s'. generateVideoFromImage poll_rejected monster ready_state
         = Some (Inl (Error (Some ''Failed to fetch'')), s',
             [SetLoadingMessage ''Initializing animation sequence...'',
              GenerateVideos ''KEY'' monster,
              SetInterval 1 5000,
              SetLoadingMessage ''The animation portal is open. Generating video...'',
              SetTimeout 10000, GetVideosOperation ''KEY'' running]))"
proof -
  have i: "isInitialized ready_state"
    by (simp add: ready_state_def)
  have k: "getApiKey progressing ready_state = (Inr ''KEY'', ready_state, [])"
    by (simp add: progressing_def world_simps)
  have c: "generateVideos progressing ''KEY'' monster = Inr running"
    by (simp add: progressing_def)
  have e: "ends_loop (operation_after (getVideosOperation progressing) 0 running (Suc (Suc 0)))"
    by (simp add: progressing_def offline_def ends_loop_def is_done_def finished_def)
  have t: "truthy (downloadLink finished)"
    by (simp add: downloadLink_def finished_def)
  have u: "the (downloadLink finished) = ''https://videos/1?alt=media''"
    by (simp add: downloadLink_def finished_def)
  have n: "nextIntervalId ready_state = 1"
    by (simp add: ready_state_def)
  note C = C1_poll_loop_ends [where poll = "getVideosOperation progressing" and key = "''KEY''"
      and ?op0.0 = running and s = ready_state and w = progressing and key' = "''KEY''"
      and ?s1.0 = ready_state and ?tr1.0 = "[]" and params = monster and op0' = running
      and op = finished
      and trp' = "[SetTimeout 10000, GetVideosOperation ''KEY'' running, SetTimeout 10000,
              GetVideosOperation ''KEY'' (running\<lparr>name := ''operations/1b'', metadata := Some ''50%''\<rparr>)]"]
  note g = mp [OF C [THEN conjunct2, THEN conjunct2, THEN conjunct1]
      conjI [OF i conjI [OF k conjI [OF c loop_progressing]]]]
  have k': "getApiKey poll_rejected ready_state = (Inr ''KEY'', ready_state, [])"
    by (simp add: poll_rejected_def world_simps)
  have c': "generateVideos poll_rejected ''KEY'' monster = Inr running"
    by (simp add: poll_rejected_def)
  have nd: "\<not> is_done running"
    by (simp add: is_done_def running_def)
  have rej: "getVideosOperation poll_rejected 0 running = Inl (Error (Some ''Failed to fetch''))"
    by (simp add: poll_rejected_def offline_def)
  have l': "poll_loop (getVideosOperation poll_rejected) ''KEY'' 0 running []
      = Some (Inl (Error (Some ''Failed to fetch'')),
              [SetTimeout 10000, GetVideosOperation ''KEY'' running])"
    using poll_loop_reject [where poll = "getVideosOperation poll_rejected", OF nd rej,
        of "''KEY''" "[]"]
    by simp
  note D = C1_poll_loop_ends [where s = ready_state and w = poll_rejected and key' = "''KEY''"
      and ?s1.0 = ready_state and ?tr1.0 = "[]" and params = monster and op0' = running
      and e = "Error (Some ''Failed to fetch'')"
      and trp' = "[SetTimeout 10000, GetVideosOperation ''KEY'' running]"]
  note h = mp [OF D [THEN conjunct2, THEN conjunct2, THEN conjunct2]
      conjI [OF i conjI [OF k' conjI [OF c' l']]]]
  from g t u n loop_progressing i k c e have 1:
    "poll_loop (getVideosOperation progressing) ''KEY'' 0 running []
     = Some (Inr finished,
             [SetTimeout 10000, GetVideosOperation ''KEY'' running,
              SetTimeout 10000,
              GetVideosOperation ''KEY'' (running\<lparr>name := ''operations/1b'', metadata := Some ''50%''\<rparr>)])
   \<and> ends_loop (operation_after (getVideosOperation progressing) 0 running (Suc (Suc 0)))
   \<and> ends_loop (Inr finished)
   \<and> isInitialized ready_state
   \<and> getApiKey progressing ready_state = (Inr ''KEY'', ready_state, [])
   \<and> generateVideos progressing ''KEY'' monster = Inr running
   \<and> truthy (downloadLink finished)
   \<and> (\<exists>s' trd. generateVideoFromImage progressing monster ready_state
         = Some (fst (download progressing ''KEY'' finished), s',
             [SetLoadingMessage ''Initializing animation sequence...'',
              GenerateVideos ''KEY'' monster,
              SetInterval 1 5000,
              SetLoadingMessage ''The animation portal is open. Generating video...'',
              SetTimeout 10000, GetVideosOperation ''KEY'' running,
              SetTimeout 10000,
              GetVideosOperation ''KEY'' (running\<lparr>name := ''operations/1b'', metadata := Some ''50%''\<rparr>),
              ClearInterval 1,
              SetLoadingMessage ''Finalizing your video...'']
             @ trd)
       \<and> (\<exists>rest. trd = FetchVideo (''https://videos/1?alt=media'' @ ''&key='' @ ''KEY'') # rest))"
    by (auto simp: ends_loop_def is_done_def finished_def)
  from h n have 2: "\<exists>s'. generateVideoFromImage poll_rejected monster ready_state
         = Some (Inl (Error (Some ''Failed to fetch'')), s',
             [SetLoadingMessage ''Initializing animation sequence...'',
              GenerateVideos ''KEY'' monster,
              SetInterval 1 5000,
              SetLoadingMessage ''The animation portal is open. Generating video...'',
              SetTimeout 10000, GetVideosOperation ''KEY'' running])"
    by simp
  from 1 2 k' c' l' show ?thesis
    by (simp only: simp_thms)
qed

section \<open>The interval timer after an error\<close>

lemma run_download_rejected:
  "generateVideoFromImage download_rejected monster ready_state =
     Some (Inl (Error (Some ''Failed to fetch'')),
           ready_state\<lparr>nextIntervalId := 2\<rparr>,
           [SetLoadingMessage ''Initializing animation sequence...'',
            GenerateVideos ''KEY'' monster,
            SetInterval 1 5000,
            SetLoadingMessage ''The animation portal is open. Generating video...'',
            ClearInterval 1,
            SetLoadingMessage ''Finalizing your video...'',
            FetchVideo ''https://videos/1?alt=media&key=KEY''])"
proof -
  have i: "isInitialized ready_state"
    by (simp add: ready_state_def)
  have k: "getApiKey download_rejected ready_state = (Inr ''KEY'', ready_state, [])"
    by (simp add: download_rejected_def world_simps)
  have c: "generateVideos download_rejected ''KEY'' monster = Inr finished"
    by (simp add: download_rejected_def)
  have f: "is_done finished"
    by (simp add: is_done_def finished_def)
  have l: "poll_loop (getVideosOperation download_rejected) ''KEY'' 0 finished []
      = Some (Inr finished, [])"
    by (simp add: poll_loop_done [OF f])
  have d: "download download_rejected ''KEY'' finished
      = (Inl (Error (Some ''Failed to fetch'')), [FetchVideo ''https://videos/1?alt=media&key=KEY''])"
    by (simp add: download_def downloadLink_def finished_def download_rejected_def offline_def)
  show ?thesis
    by (simp add: generateVideoFromImage_loop_left [OF i k c l d])
      (simp add: download_rejected_def world_simps)
qed

lemma run_permission_denied:
  "generateVideoFromImage permission_denied monster ready_state =
     Some (Inl (Error (Some ''The caller does not have permission'')),
           ready_state\<lparr>apiKey := None, isInitialized := False\<rparr>,
           [SetLoadingMessage ''Initializing animation sequence...'',
            GenerateVideos ''KEY'' monster])"
proof -
  have i: "isInitialized ready_state"
    by (simp add: ready_state_def)
  have k: "getApiKey permission_denied ready_state = (Inr ''KEY'', ready_state, [])"
    by (simp add: permission_denied_def world_simps)
  have c: "generateVideos permission_denied ''KEY'' monster
      = Inl (Error (Some ''The caller does not have permission''))"
    by (simp add: permission_denied_def)
  show ?thesis
    by (simp add: generateVideoFromImage_create_rejected [OF i k c])
      (simp add: permission_denied_def world_simps)
qed

lemma clear_not_in_polls_trace: "ClearInterval i \<notin> set (polls_trace poll key n op k)"
  by (induction k arbitrary: n op) (simp_all split: sum.splits)

lemma activeIntervals_catch_block [simp]:
  "activeIntervals (catch_block w e s) = activeIntervals s"
  by (simp add: catch_block_def)

text \<open>
  C10, as stated, fails: this call starts the timer and then throws because the download
  is rejected, and the timer has been cleared before: \<open>ClearInterval 1\<close> is among the
  events, and no timer is active in the state the call leaves.
\<close>

theorem C10_download_fails_counterexample:
  "generateVideoFromImage download_rejected monster ready_state =
     Some (Inl (Error (Some ''Failed to fetch'')),
           ready_state\<lparr>nextIntervalId := 2\<rparr>,
           [SetLoadingMessage ''Initializing animation sequence...'',
            GenerateVideos ''KEY'' monster,
            SetInterval 1 5000,
            SetLoadingMessage ''The animation portal is open. Generating video...'',
            ClearInterval 1,
            SetLoadingMessage ''Finalizing your video...'',
            FetchVideo ''https://videos/1?alt=media&key=KEY''])
   \<and> activeIntervals (ready_state\<lparr>nextIntervalId := 2\<rparr>) = []"
  by (simp add: run_download_rejected) (simp add: ready_state_def)

text \<open>
  C10, amended: when \<open>generateVideoFromImage\<close> throws after it has started the interval
  timer, the timer stays active exactly when the error came from a poll of the loop:
  then \<open>clearInterval\<close> is never executed. When the loop was left with a done operation
  and the call throws afterwards (no download link, a download that is rejected or not
  ok), \<open>clearInterval\<close> has been executed before, and the timer is not active.
\<close>

theorem C10_timer_after_error:
  assumes "generateVideoFromImage w params s = Some (Inl e, s', tr)"
    and "getApiKey w s = (Inr key, s1, tr1)"
    and "generateVideos w key params = Inr op0"
    and "isInitialized s"
  shows "SetInterval (nextIntervalId s1) 5000 \<in> set tr
    \<and> (\<forall>trp. poll_loop (getVideosOperation w) key 0 op0 [] = Some (Inl e, trp) \<longrightarrow>
          nextIntervalId s1 \<in> set (activeIntervals s')
          \<and> ClearInterval (nextIntervalId s1) \<notin> set tr)
    \<and> (\<forall>op trp. poll_loop (getVideosOperation w) key 0 op0 [] = Some (Inr op, trp) \<longrightarrow>
          nextIntervalId s1 \<notin> set (activeIntervals s')
          \<and> ClearInterval (nextIntervalId s1) \<in> set tr)
    \<and> (\<exists>r trp. poll_loop (getVideosOperation w) key 0 op0 [] = Some (r, trp))"
  using assms(1)
proof (cases rule: generateVideoFromImage_cases)
  case not_initialized
  with assms show ?thesis by simp
next
  case (no_key e')
  with assms show ?thesis by simp
next
  case (create_rejected key' s1' tr1' e')
  with assms show ?thesis by simp
next
  case (poll_rejected key' s1' tr1' op0' e' trp)
  with assms have eq: "key' = key" "op0' = op0" "tr1' = tr1" "s1' = s1" "e' = e" by simp_all
  from poll_loop_trace [OF poll_rejected(4)] obtain k
    where "trp = polls_trace (getVideosOperation w) key' 0 op0' k" by blast
  then have "ClearInterval (nextIntervalId s1) \<notin> set trp"
    by (simp add: clear_not_in_polls_trace)
  with getApiKey_trace [OF assms(2)] poll_rejected eq show ?thesis
    by (auto simp: setInterval_def)
next
  case (loop_left key' s1' tr1' op0' op trp trd)
  with assms have eq: "key' = key" "op0' = op0" "tr1' = tr1" "s1' = s1" by simp_all
  with loop_left show ?thesis
    by (auto simp: setInterval_def clearInterval_def)
qed

theorem C10_timer_after_error_witness:
  "generateVideoFromImage poll_rejected monster ready_state
     = Some (Inl (Error (Some ''Failed to fetch'')),
             ready_state\<lparr>activeIntervals := [1], nextIntervalId := 2\<rparr>,
             [SetLoadingMessage ''Initializing animation sequence...'',
              GenerateVideos ''KEY'' monster,
              SetInterval 1 5000,
              SetLoadingMessage ''The animation portal is open. Generating video...'',
              SetTimeout 10000,
              GetVideosOperation ''KEY'' running])
   \<and> isInitialized ready_state
   \<and> getApiKey poll_rejected ready_state = (Inr ''KEY'', ready_state, [])
   \<and> generateVideos poll_rejected ''KEY'' monster = Inr running
   \<and> poll_loop (getVideosOperation poll_rejected) ''KEY'' 0 running []
       = Some (Inl (Error (Some ''Failed to fetch'')),
               [SetTimeout 10000, GetVideosOperation ''KEY'' running])
   \<and> nextIntervalId ready_state
       \<in> set (activeIntervals (ready_state\<lparr>activeIntervals := [1], nextIntervalId := 2\<rparr>))
   \<and> getApiKey download_rejected ready_state = (Inr ''KEY'', ready_state, [])
   \<and> generateVideos download_rejected ''KEY'' monster = Inr finished
   \<and> poll_loop (getVideosOperation download_rejected) ''KEY'' 0 finished [] = Some (Inr finished, [])
   \<and> nextIntervalId ready_state \<notin> set (activeIntervals (ready_state\<lparr>nextIntervalId := 2\<rparr>))"
proof -
  have k: "getApiKey poll_rejected ready_state = (Inr ''KEY'', ready_state, [])"
    by (simp add: poll_rejected_def world_simps)
  have c: "generateVideos poll_rejected ''KEY'' monster = Inr running"
    by (simp add: poll_rejected_def)
  have nd: "\<not> is_done running"
    by (simp add: is_done_def running_def)
  have rej: "getVideosOperation poll_rejected 0 running = Inl (Error (Some ''Failed to fetch''))"
    by (simp add: poll_rejected_def offline_def)
  have l: "poll_loop (getVideosOperation poll_rejected) ''KEY'' 0 running []
      = Some (Inl (Error (Some ''Failed to fetch'')),
              [SetTimeout 10000, GetVideosOperation ''KEY'' running])"
    using poll_loop_reject [where poll = "getVideosOperation poll_rejected", OF nd rej,
        of "''KEY''" "[]"]
    by simp
  have k': "getApiKey download_rejected ready_state = (Inr ''KEY'', ready_state, [])"
    by (simp add: download_rejected_def world_simps)
  have c': "generateVideos download_rejected ''KEY'' monster = Inr finished"
    by (simp add: download_rejected_def)
  have f: "is_done finished"
    by (simp add: is_done_def finished_def)
  have l': "poll_loop (getVideosOperation download_rejected) ''KEY'' 0 finished []
      = Some (Inr finished, [])"
    by (simp add: poll_loop_done [OF f])
  have i: "isInitialized ready_state"
    by (simp add: ready_state_def)
  from C10_timer_after_error [OF run_poll_rejected k c i]
       C10_timer_after_error [OF run_download_rejected k' c' i]
       run_poll_rejected k c l k' c' l' i
  show ?thesis by simp
qed

section \<open>The cached credential\<close>

lemma getApiKey_cached:
  "\<not> aistudio w \<Longrightarrow> apiKey s = Some k \<Longrightarrow> k \<noteq> [] \<Longrightarrow> getApiKey w s = (Inr k, s, [])"
  by (simp add: getApiKey_def isAiStudio_def)

lemma getApiKey_studio:
  "aistudio w \<Longrightarrow>
   getApiKey w s =
     (if truthy (env_API_KEY w) then Inr (the (env_API_KEY w))
      else Inl (Error (Some ''DEV_KEY_MISSING'')), s, [])"
  by (simp add: getApiKey_def isAiStudio_def split: option.splits)

lemma getApiKey_keeps:
  "apiKey s = Some k \<Longrightarrow> k \<noteq> [] \<Longrightarrow> fst (snd (getApiKey w s)) = s"
  by (cases "aistudio w") (simp_all add: getApiKey_cached getApiKey_studio)

lemma initializeApp_keeps:
  "apiKey s = Some k \<Longrightarrow> k \<noteq> [] \<Longrightarrow> apiKey (fst (snd (initializeApp w s))) = Some k"
  by (cases "aistudio w")
    (auto simp: initializeApp_def try_getApiKey_def isAiStudio_def getApiKey_cached
      getApiKey_studio split: sum.splits)

lemma apiKey_setInterval [simp]: "apiKey (snd (setInterval s)) = apiKey s"
  by (simp add: setInterval_def)

lemma apiKey_clearInterval [simp]: "apiKey (clearInterval i s) = apiKey s"
  by (simp add: clearInterval_def)

lemma apiKey_catch_block:
  "apiKey (catch_block w e s) =
     (if \<not> aistudio w \<and> message_includes e ''permission'' then None else apiKey s)"
  by (simp add: catch_block_def isAiStudio_def)

text \<open>
  C4, as stated, fails: in production, with the credential cached, a create call that is
  rejected with a permission error makes \<open>generateVideoFromImage\<close> clear the cache.
\<close>

theorem C4_cache_cleared_counterexample:
  "apiKey ready_state = Some ''KEY''
   \<and> generateVideoFromImage permission_denied monster ready_state =
       Some (Inl (Error (Some ''The caller does not have permission'')),
             ready_state\<lparr>apiKey := None, isInitialized := False\<rparr>,
             [SetLoadingMessage ''Initializing animation sequence...'',
              GenerateVideos ''KEY'' monster])
   \<and> apiKey (ready_state\<lparr>apiKey := None, isInitialized := False\<rparr>) = None"
  by (simp add: run_permission_denied) (simp add: ready_state_def)

text \<open>
  C4, amended: once a credential is cached, \<open>getApiKey\<close> and \<open>initializeApp\<close> leave it
  in the cache, and no operation of the module puts another credential in its place.
  \<open>generateVideoFromImage\<close> leaves it too, with one exception: outside AI Studio, when
  the call is initialized and an error thrown inside its \<open>try\<close> statement has a message
  that contains 'permission', the \<open>catch\<close> block clears the cache.
\<close>

theorem C4_cached_credential:
  assumes "apiKey s = Some k" and "k \<noteq> []"
  shows "apiKey (fst (snd (getApiKey w s))) = Some k
    \<and> apiKey (fst (snd (initializeApp w s))) = Some k
    \<and> (generateVideoFromImage w params s = Some (r, s', tr) \<longrightarrow>
          apiKey s' =
            (if \<not> aistudio w \<and> isInitialized s
                \<and> (case r of Inl e \<Rightarrow> message_includes e ''permission'' | Inr url \<Rightarrow> False)
             then None else Some k))"
proof (intro conjI)
  show "apiKey (fst (snd (getApiKey w s))) = Some k"
    using assms by (simp add: getApiKey_keeps)
  show "apiKey (fst (snd (initializeApp w s))) = Some k"
    using assms by (rule initializeApp_keeps)
  show "generateVideoFromImage w params s = Some (r, s', tr) \<longrightarrow>
          apiKey s' =
            (if \<not> aistudio w \<and> isInitialized s
                \<and> (case r of Inl e \<Rightarrow> message_includes e ''permission'' | Inr url \<Rightarrow> False)
             then None else Some k)"
  proof
    assume "generateVideoFromImage w params s = Some (r, s', tr)"
    then show "apiKey s' =
            (if \<not> aistudio w \<and> isInitialized s
                \<and> (case r of Inl e \<Rightarrow> message_includes e ''permission'' | Inr url \<Rightarrow> False)
             then None else Some k)"
    proof (cases rule: generateVideoFromImage_cases)
      case not_initialized
      with assms show ?thesis by simp
    next
      case (no_key e)
      from getApiKey_keeps [OF assms, of w] no_key(2) have "s' = s" by simp
      moreover from no_key(2) assms have "aistudio w"
        by (cases "aistudio w") (simp_all add: getApiKey_cached)
      ultimately show ?thesis using assms by simp
    next
      case (create_rejected key s1 tr1 e)
      from getApiKey_keeps [OF assms, of w] create_rejected(2) have "s1 = s" by simp
      with create_rejected assms show ?thesis
        by (simp add: apiKey_catch_block)
    next
      case (poll_rejected key s1 tr1 op0 e trp)
      from getApiKey_keeps [OF assms, of w] poll_rejected(2) have "s1 = s" by simp
      with poll_rejected assms show ?thesis
        by (simp add: apiKey_catch_block)
    next
      case (loop_left key s1 tr1 op0 op trp trd)
      from getApiKey_keeps [OF assms, of w] loop_left(2) have "s1 = s" by simp
      with loop_left assms show ?thesis
        by (cases r) (simp_all add: apiKey_catch_block)
    qed
  qed
qed

theorem C4_cached_credential_witness:
  "apiKey ready_state = Some ''KEY'' \<and> ''KEY'' \<noteq> []
   \<and> apiKey (fst (snd (getApiKey permission_denied ready_state))) = Some ''KEY''
   \<and> apiKey (fst (snd (initializeApp permission_denied ready_state))) = Some ''KEY''
   \<and> generateVideoFromImage permission_denied monster ready_state =
       Some (Inl (Error (Some ''The caller does not have permission'')),
             ready_state\<lparr>apiKey := None, isInitialized := False\<rparr>,
             [SetLoadingMessage ''Initializing animation sequence...'',
              GenerateVideos ''KEY'' monster])
   \<and> generateVideoFromImage poll_rejected monster ready_state
     = Some (Inl (Error (Some ''Failed to fetch'')),
             ready_state\<lparr>activeIntervals := [1], nextIntervalId := 2\<rparr>,
             [SetLoadingMessage ''Initializing animation sequence...'',
              GenerateVideos ''KEY'' monster,
              SetInterval 1 5000,
              SetLoadingMessage ''The animation portal is open. Generating video...'',
              SetTimeout 10000,
              GetVideosOperation ''KEY'' running])
   \<and> apiKey (ready_state\<lparr>activeIntervals := [1], nextIntervalId := 2\<rparr>) = Some ''KEY''"
proof -
  have a: "apiKey ready_state = Some ''KEY''"
    by (simp add: ready_state_def)
  have b: "''KEY'' \<noteq> []" by simp
  from C4_cached_credential [OF a b, of permission_denied monster]
    C4_cached_credential [OF a b, of poll_rejected monster]
    run_permission_denied run_poll_rejected a
  show ?thesis
    by (simp add: ready_state_def)
qed

section \<open>The handlers of the component\<close>

lemma handleGenerateVideo_failed:
  assumes "appState a = Ready" and "truthy (app_imageBase64 a)" and "app_prompt a \<noteq> []"
    and "generateVideoFromImage w (video_params a) s = Some (Inl e, s', tr)"
  shows "handleGenerateVideo w (a, s) =
     Some ((generation_error e
              (a\<lparr>error := None, generatedVideoUrl := Null, generatedVideoBlob := Null,
                 isLoading := True\<rparr>))\<lparr>isLoading := False\<rparr>, s', tr)"
  using assms by (simp add: handleGenerateVideo_def)

lemma handleGenerateVideo_succeeded:
  assumes "appState a = Ready" and "truthy (app_imageBase64 a)" and "app_prompt a \<noteq> []"
    and "generateVideoFromImage w (video_params a) s = Some (Inr url, s', tr)"
  shows "handleGenerateVideo w (a, s) =
     Some (a\<lparr>error := None, generatedVideoUrl := string_prop url ''url'',
              generatedVideoBlob := string_prop url ''blob'', isLoading := False\<rparr>, s', tr)"
  using assms by (simp add: handleGenerateVideo_def)

lemma video_params_ready_app: "video_params ready_app = monster"
  by (simp add: video_params_def ready_app_def monster_def initial_app_def)

lemma run_empty_message:
  "generateVideoFromImage empty_message (video_params ready_app) ready_state =
     Some (Inl (Error (Some [])), ready_state,
           [SetLoadingMessage ''Initializing animation sequence...'',
            GenerateVideos ''KEY'' (video_params ready_app)])"
proof -
  have i: "isInitialized ready_state"
    by (simp add: ready_state_def)
  have k: "getApiKey empty_message ready_state = (Inr ''KEY'', ready_state, [])"
    by (simp add: empty_message_def world_simps)
  have c: "generateVideos empty_message ''KEY'' (video_params ready_app) = Inl (Error (Some []))"
    by (simp add: empty_message_def)
  show ?thesis
    by (simp add: generateVideoFromImage_create_rejected [OF i k c])
      (simp add: empty_message_def world_simps)
qed

lemma ready_app_guards:
  "appState ready_app = Ready" "truthy (app_imageBase64 ready_app)" "app_prompt ready_app \<noteq> []"
  by (simp_all add: ready_app_def initial_app_def)

text \<open>
  C3, as stated, fails: this generation error has the empty string as its message, and
  the component shows 'An unknown error occurred.' instead.
\<close>

theorem C3_empty_message_counterexample:
  "generateVideoFromImage empty_message (video_params ready_app) ready_state =
     Some (Inl (Error (Some [])), ready_state,
           [SetLoadingMessage ''Initializing animation sequence...'',
            GenerateVideos ''KEY'' (video_params ready_app)])
   \<and> message (Error (Some [])) = Some []
   \<and> map_option (\<lambda>(a', s', tr). (error a', appState a'))
        (handleGenerateVideo empty_message (ready_app, ready_state))
       = Some (Some ''An unknown error occurred.'', Ready)"
  by (simp add: run_empty_message
      handleGenerateVideo_failed [OF ready_app_guards run_empty_message])
    (simp add: generation_error_def message_includes_def message_or_def ready_app_def)

text \<open>
  C3, amended: when video generation fails with an error whose message contains
  'Requested entity was not found.', the component shows
  'The selected API key appears to be invalid. Please select another key.' and returns to
  the key-selection state. For every other generation error it stays in its state; it
  shows the error's own message when that message is a non-empty string, and
  'An unknown error occurred.' when the error has no message or an empty one.
\<close>

theorem C3_generation_error_message:
  assumes "appState a = Ready" and "truthy (app_imageBase64 a)" and "app_prompt a \<noteq> []"
    and "generateVideoFromImage w (video_params a) s = Some (Inl e, s', tr)"
  shows "\<exists>a'. handleGenerateVideo w (a, s) = Some (a', s', tr)
    \<and> (\<forall>m. message e = Some m \<and> str_includes m ''Requested entity was not found.'' \<longrightarrow>
          error a' = Some ''The selected API key appears to be invalid. Please select another key.''
          \<and> appState a' = KeyNeeded)
    \<and> (\<forall>m. message e = Some m \<and> m \<noteq> [] \<and> \<not> str_includes m ''Requested entity was not found.'' \<longrightarrow>
          error a' = Some m \<and> appState a' = Ready)
    \<and> (\<not> truthy (message e) \<longrightarrow>
          error a' = Some ''An unknown error occurred.'' \<and> appState a' = Ready)"
proof -
  have empty: "\<not> str_includes [] ''Requested entity was not found.''"
    by (simp add: str_includes_def)
  from handleGenerateVideo_failed [OF assms] empty assms(1) show ?thesis
    by (cases "message e")
      (auto simp: generation_error_def message_includes_def message_or_def)
qed

lemma run_entity_not_found:
  "generateVideoFromImage entity_not_found (video_params ready_app) ready_state =
     Some (Inl (Error (Some ''404 Requested entity was not found.'')), ready_state,
           [SetLoadingMessage ''Initializing animation sequence...'',
            GenerateVideos ''KEY'' (video_params ready_app)])"
proof -
  have i: "isInitialized ready_state"
    by (simp add: ready_state_def)
  have k: "getApiKey entity_not_found ready_state = (Inr ''KEY'', ready_state, [])"
    by (simp add: entity_not_found_def world_simps)
  have c: "generateVideos entity_not_found ''KEY'' (video_params ready_app)
      = Inl (Error (Some ''404 Requested entity was not found.''))"
    by (simp add: entity_not_found_def)
  show ?thesis
    by (simp add: generateVideoFromImage_create_rejected [OF i k c])
      (simp add: entity_not_found_def world_simps)
qed

lemma run_offline:
  "generateVideoFromImage offline (video_params ready_app) ready_state =
     Some (Inl (Error (Some ''Failed to fetch'')), ready_state,
           [SetLoadingMessage ''Initializing animation sequence...'',
            GenerateVideos ''KEY'' (video_params ready_app)])"
proof -
  have i: "isInitialized ready_state"
    by (simp add: ready_state_def)
  have k: "getApiKey offline ready_state = (Inr ''KEY'', ready_state, [])"
    by (simp add: world_simps)
  have c: "generateVideos offline ''KEY'' (video_params ready_app)
      = Inl (Error (Some ''Failed to fetch''))"
    by (simp add: offline_def)
  show ?thesis
    by (simp add: generateVideoFromImage_create_rejected [OF i k c])
      (simp add: world_simps)
qed

theorem C3_generation_error_message_witness:
  "appState ready_app = Ready \<and> truthy (app_imageBase64 ready_app) \<and> app_prompt ready_app \<noteq> []
   \<and> generateVideoFromImage entity_not_found (video_params ready_app) ready_state =
       Some (Inl (Error (Some ''404 Requested entity was not found.'')), ready_state,
           [SetLoadingMessage ''Initializing animation sequence...'',
            GenerateVideos ''KEY'' (video_params ready_app)])
   \<and> map_option (\<lambda>(a', s', tr). (error a', appState a'))
        (handleGenerateVideo entity_not_found (ready_app, ready_state))
       = Some (Some ''The selected API key appears to be invalid. Please select another key.'',
               KeyNeeded)
   \<and> generateVideoFromImage offline (video_params ready_app) ready_state =
       Some (Inl (Error (Some ''Failed to fetch'')), ready_state,
           [SetLoadingMessage ''Initializing animation sequence...'',
            GenerateVideos ''KEY'' (video_params ready_app)])
   \<and> map_option (\<lambda>(a', s', tr). (error a', appState a'))
        (handleGenerateVideo offline (ready_app, ready_state))
       = Some (Some ''Failed to fetch'', Ready)
   \<and> generateVideoFromImage empty_message (video_params ready_app) ready_state =
       Some (Inl (Error (Some [])), ready_state,
           [SetLoadingMessage ''Initializing animation sequence...'',
            GenerateVideos ''KEY'' (video_params ready_app)])
   \<and> map_option (\<lambda>(a', s', tr). (error a', appState a'))
        (handleGenerateVideo empty_message (ready_app, ready_state))
       = Some (Some ''An unknown error occurred.'', Ready)"
proof -
  from C3_generation_error_message [OF ready_app_guards run_entity_not_found]
  have 1: "map_option (\<lambda>(a', s', tr). (error a', appState a'))
        (handleGenerateVideo entity_not_found (ready_app, ready_state))
       = Some (Some ''The selected API key appears to be invalid. Please select another key.'',
               KeyNeeded)"
    by (auto simp: str_includes_def sublist_code)
  from C3_generation_error_message [OF ready_app_guards run_offline]
  have 2: "map_option (\<lambda>(a', s', tr). (error a', appState a'))
        (handleGenerateVideo offline (ready_app, ready_state))
       = Some (Some ''Failed to fetch'', Ready)"
    by (auto simp: str_includes_def sublist_code)
  from C3_generation_error_message [OF ready_app_guards run_empty_message]
  have 3: "map_option (\<lambda>(a', s', tr). (error a', appState a'))
        (handleGenerateVideo empty_message (ready_app, ready_state))
       = Some (Some ''An unknown error occurred.'', Ready)"
    by auto
  from 1 2 3 ready_app_guards run_entity_not_found run_offline run_empty_message
  show ?thesis by simp
qed

section \<open>The result of a generation\<close>

lemma download_succeeded:
  "download w key op = (Inr url, trd) \<Longrightarrow> \<exists>b. url = createObjectURL w b \<and> CreateObjectURL b \<in> set trd"
  by (auto simp: download_def Let_def split: if_splits sum.splits)

lemma generateVideoFromImage_succeeded:
  assumes "generateVideoFromImage w params s = Some (Inr url, s', tr)"
  shows "\<exists>b. url = createObjectURL w b \<and> CreateObjectURL b \<in> set tr"
  using assms
proof (cases rule: generateVideoFromImage_cases)
  case (loop_left key s1 tr1 op0 op trp trd)
  from download_succeeded [OF loop_left(5)] loop_left(7) show ?thesis by auto
qed simp_all

lemma no_video_handleGenerateVideo:
  "handleGenerateVideo w (a, s) = Some (a', s', tr) \<Longrightarrow> no_video a \<Longrightarrow> no_video a'"
  by (auto simp: handleGenerateVideo_def no_video_def generation_error_def string_prop_def Let_def
      split: if_splits option.splits sum.splits prod.splits)

lemma no_video_handleSelectApiKey: "no_video (handleSelectApiKey w a) = no_video a"
  by (simp add: handleSelectApiKey_def no_video_def split: sum.splits)

lemma no_video_app_step:
  assumes "app_step ev w (a, s) = Some (a', s', tr)" and "no_video a"
  shows "no_video a'"
proof (cases ev)
  case ClickGenerate
  with assms(1) have "handleGenerateVideo w (a, s) = Some (a', s', tr)"
    by (simp add: app_step_def)
  from no_video_handleGenerateVideo [OF this assms(2)] show ?thesis .
next
  case ClickSelectKey
  with assms show ?thesis
    by (auto simp: app_step_def no_video_handleSelectApiKey)
qed (insert assms, auto simp: app_step_def no_video_def)

lemma no_video_run_events:
  "run_events evs (a, s) = Some (a', s', tr) \<Longrightarrow> no_video a \<Longrightarrow> no_video a'"
proof (induction evs arbitrary: a s tr)
  case Nil
  then show ?case by simp
next
  case (Cons ew evs)
  from Cons.prems(1) obtain a1 s1 tr1 tr2 where
    1: "app_step (fst ew) (snd ew) (a, s) = Some (a1, s1, tr1)" and
    2: "run_events evs (a1, s1) = Some (a', s', tr2)"
    by (auto split: option.splits)
  from no_video_app_step [OF 1 Cons.prems(2)] Cons.IH [OF 2] show ?case by simp
qed

lemma no_video_init: "init w (a, s) = (a', s', tr) \<Longrightarrow> no_video a \<Longrightarrow> no_video a'"
  by (auto simp: init_def no_video_def split: prod.splits sum.splits)

lemma no_video_session:
  assumes "session w0 evs = Some (a, s, tr)"
  shows "no_video a"
proof -
  from assms obtain a0 s0 tr0 tr1 where
    1: "init w0 (initial_app, initial_state) = (a0, s0, tr0)" and
    2: "run_events evs (a0, s0) = Some (a, s, tr1)"
    by (auto simp: session_def split: prod.splits option.splits)
  have "no_video initial_app"
    by (simp add: no_video_def initial_app_def)
  from no_video_run_events [OF 2 no_video_init [OF 1 this]] show ?thesis .
qed

lemma no_video_not_shown: "no_video a \<Longrightarrow> \<not> video_shown a"
  by (auto simp: no_video_def video_shown_def js_truthy_def)

text \<open>
  C9: a successful call of \<open>generateVideoFromImage\<close> gives a string, the object URL of
  the downloaded blob. The component reads the properties \<open>url\<close> and \<open>blob\<close> of that
  string, both are \<open>undefined\<close>, and the video is not shown: after no session of the page
  does the component hold a URL and a blob.
\<close>

theorem C9_result_is_string:
  "(appState a = Ready \<and> truthy (app_imageBase64 a) \<and> app_prompt a \<noteq> []
      \<and> generateVideoFromImage w (video_params a) s = Some (Inr url, s', tr) \<longrightarrow>
      (\<exists>b. url = createObjectURL w b \<and> CreateObjectURL b \<in> set tr)
      \<and> (\<exists>a'. handleGenerateVideo w (a, s) = Some (a', s', tr)
            \<and> generatedVideoUrl a' = string_prop url ''url''
            \<and> generatedVideoBlob a' = string_prop url ''blob''
            \<and> generatedVideoUrl a' = Undefined \<and> generatedVideoBlob a' = Undefined
            \<and> \<not> video_shown a'))
   \<and> (session w0 evs = Some (a1, s1, tr1) \<longrightarrow>
        (generatedVideoUrl a1 = Null \<or> generatedVideoUrl a1 = Undefined)
        \<and> (generatedVideoBlob a1 = Null \<or> generatedVideoBlob a1 = Undefined)
        \<and> \<not> video_shown a1)"
proof (intro conjI)
  show "appState a = Ready \<and> truthy (app_imageBase64 a) \<and> app_prompt a \<noteq> []
      \<and> generateVideoFromImage w (video_params a) s = Some (Inr url, s', tr) \<longrightarrow>
      (\<exists>b. url = createObjectURL w b \<and> CreateObjectURL b \<in> set tr)
      \<and> (\<exists>a'. handleGenerateVideo w (a, s) = Some (a', s', tr)
            \<and> generatedVideoUrl a' = string_prop url ''url''
            \<and> generatedVideoBlob a' = string_prop url ''blob''
            \<and> generatedVideoUrl a' = Undefined \<and> generatedVideoBlob a' = Undefined
            \<and> \<not> video_shown a')"
  proof
    assume h: "appState a = Ready \<and> truthy (app_imageBase64 a) \<and> app_prompt a \<noteq> []
      \<and> generateVideoFromImage w (video_params a) s = Some (Inr url, s', tr)"
    then have g: "appState a = Ready" "truthy (app_imageBase64 a)" "app_prompt a \<noteq> []"
      and run: "generateVideoFromImage w (video_params a) s = Some (Inr url, s', tr)"
      by simp_all
    from handleGenerateVideo_succeeded [OF g run] generateVideoFromImage_succeeded [OF run]
    show "(\<exists>b. url = createObjectURL w b \<and> CreateObjectURL b \<in> set tr)
      \<and> (\<exists>a'. handleGenerateVideo w (a, s) = Some (a', s', tr)
            \<and> generatedVideoUrl a' = string_prop url ''url''
            \<and> generatedVideoBlob a' = string_prop url ''blob''
            \<and> generatedVideoUrl a' = Undefined \<and> generatedVideoBlob a' = Undefined
            \<and> \<not> video_shown a')"
      by (simp add: string_prop_def video_shown_def js_truthy_def)
  qed
next
  show "session w0 evs = Some (a1, s1, tr1) \<longrightarrow>
        (generatedVideoUrl a1 = Null \<or> generatedVideoUrl a1 = Undefined)
        \<and> (generatedVideoBlob a1 = Null \<or> generatedVideoBlob a1 = Undefined)
        \<and> \<not> video_shown a1"
  proof
    assume "session w0 evs = Some (a1, s1, tr1)"
    from no_video_session [OF this] no_video_not_shown [of a1]
    show "(generatedVideoUrl a1 = Null \<or> generatedVideoUrl a1 = Undefined)
        \<and> (generatedVideoBlob a1 = Null \<or> generatedVideoBlob a1 = Undefined)
        \<and> \<not> video_shown a1"
      by (simp add: no_video_def)
  qed
qed

section \<open>A session of the page\<close>

lemma init_key_served:
  "init key_served (initial_app, initial_state)
     = (initial_app\<lparr>appState := Ready\<rparr>, ready_state, [FetchKey])"
  by (simp add: init_def initializeApp_def try_getApiKey_def getApiKey_def fetchApiKey_def
      isAiStudio_def key_served_def offline_def key_file_def data_apiKey_def initial_state_def
      ready_state_def)

lemma handleGenerateVideo_progressing:
  "handleGenerateVideo progressing (ready_app, ready_state)
     = Some (ready_app\<lparr>error := None, generatedVideoUrl := Undefined,
                generatedVideoBlob := Undefined, isLoading := False\<rparr>,
             ready_state\<lparr>nextIntervalId := 2\<rparr>,
             [SetLoadingMessage ''Initializing animation sequence...'',
              GenerateVideos ''KEY'' monster,
              SetInterval 1 5000,
              SetLoadingMessage ''The animation portal is open. Generating video...'',
              SetTimeout 10000,
              GetVideosOperation ''KEY'' running,
              SetTimeout 10000,
              GetVideosOperation ''KEY'' (running\<lparr>name := ''operations/1b'', metadata := Some ''50%''\<rparr>),
              ClearInterval 1,
              SetLoadingMessage ''Finalizing your video...'',
              FetchVideo ''https://videos/1?alt=media&key=KEY'',
              CreateObjectURL [0, 0, 0, 24]])"
proof -
  have run: "generateVideoFromImage progressing (video_params ready_app) ready_state
     = Some (Inr ''blob:video'', ready_state\<lparr>nextIntervalId := 2\<rparr>,
             [SetLoadingMessage ''Initializing animation sequence...'',
              GenerateVideos ''KEY'' monster,
              SetInterval 1 5000,
              SetLoadingMessage ''The animation portal is open. Generating video...'',
              SetTimeout 10000,
              GetVideosOperation ''KEY'' running,
              SetTimeout 10000,
              GetVideosOperation ''KEY'' (running\<lparr>name := ''operations/1b'', metadata := Some ''50%''\<rparr>),
              ClearInterval 1,
              SetLoadingMessage ''Finalizing your video...'',
              FetchVideo ''https://videos/1?alt=media&key=KEY'',
              CreateObjectURL [0, 0, 0, 24]])"
    by (simp only: video_params_ready_app run_progressing)
  show ?thesis
    by (simp add: handleGenerateVideo_succeeded [OF ready_app_guards run] string_prop_def)
qed

lemma session_example:
  "session key_served [(SelectImage (Some ''iVBOR''), offline), (ClickGenerate, progressing)]
     = Some (ready_app\<lparr>error := None, generatedVideoUrl := Undefined,
                generatedVideoBlob := Undefined, isLoading := False\<rparr>,
             ready_state\<lparr>nextIntervalId := 2\<rparr>,
             [FetchKey,
              SetLoadingMessage ''Initializing animation sequence...'',
              GenerateVideos ''KEY'' monster,
              SetInterval 1 5000,
              SetLoadingMessage ''The animation portal is open. Generating video...'',
              SetTimeout 10000,
              GetVideosOperation ''KEY'' running,
              SetTimeout 10000,
              GetVideosOperation ''KEY'' (running\<lparr>name := ''operations/1b'', metadata := Some ''50%''\<rparr>),
              ClearInterval 1,
              SetLoadingMessage ''Finalizing your video...'',
              FetchVideo ''https://videos/1?alt=media&key=KEY'',
              CreateObjectURL [0, 0, 0, 24]])"
proof -
  have a: "initial_app\<lparr>appState := Ready, app_imageBase64 := Some ''iVBOR''\<rparr> = ready_app"
    by (simp add: ready_app_def)
  show ?thesis
    by (simp add: session_def init_key_served app_step_def a handleGenerateVideo_progressing)
qed

theorem C9_result_is_string_witness:
  "appState ready_app = Ready \<and> truthy (app_imageBase64 ready_app) \<and> app_prompt ready_app \<noteq> []
   \<and> generateVideoFromImage progressing (video_params ready_app) ready_state
       = Some (Inr ''blob:video'', ready_state\<lparr>nextIntervalId := 2\<rparr>,
             [SetLoadingMessage ''Initializing animation sequence...'',
              GenerateVideos ''KEY'' monster,
              SetInterval 1 5000,
              SetLoadingMessage ''The animation portal is open. Generating video...'',
              SetTimeout 10000,
              GetVideosOperation ''KEY'' running,
              SetTimeout 10000,
              GetVideosOperation ''KEY'' (running\<lparr>name := ''operations/1b'', metadata := Some ''50%''\<rparr>),
              ClearInterval 1,
              SetLoadingMessage ''Finalizing your video...'',
              FetchVideo ''https://videos/1?alt=media&key=KEY'',
              CreateObjectURL [0, 0, 0, 24]])
   \<and> map_option (\<lambda>(a', s', tr). (generatedVideoUrl a', generatedVideoBlob a', video_shown a'))
        (handleGenerateVideo progressing (ready_app, ready_state))
       = Some (Undefined, Undefined, False)
   \<and> map_option (\<lambda>(a', s', tr). (generatedVideoUrl a', generatedVideoBlob a', video_shown a'))
        (session key_served [(SelectImage (Some ''iVBOR''), offline), (ClickGenerate, progressing)])
       = Some (Undefined, Undefined, False)"
proof -
  let ?tr = "[SetLoadingMessage ''Initializing animation sequence...'',
              GenerateVideos ''KEY'' monster,
              SetInterval 1 5000,
              SetLoadingMessage ''The animation portal is open. Generating video...'',
              SetTimeout 10000,
              GetVideosOperation ''KEY'' running,
              SetTimeout 10000,
              GetVideosOperation ''KEY'' (running\<lparr>name := ''operations/1b'', metadata := Some ''50%''\<rparr>),
              ClearInterval 1,
              SetLoadingMessage ''Finalizing your video...'',
              FetchVideo ''https://videos/1?alt=media&key=KEY'',
              CreateObjectURL [0, 0, 0, 24]]"
  have run: "generateVideoFromImage progressing (video_params ready_app) ready_state
     = Some (Inr ''blob:video'', ready_state\<lparr>nextIntervalId := 2\<rparr>, ?tr)"
    by (simp only: video_params_ready_app run_progressing)
  note C = C9_result_is_string [where a = ready_app and w = progressing and s = ready_state
      and url = "''blob:video''" and s' = "ready_state\<lparr>nextIntervalId := 2\<rparr>" and tr = ?tr
      and ?w0.0 = key_served
      and evs = "[(SelectImage (Some ''iVBOR''), offline), (ClickGenerate, progressing)]"
      and ?a1.0 = "ready_app\<lparr>error := None, generatedVideoUrl := Undefined,
                generatedVideoBlob := Undefined, isLoading := False\<rparr>"
      and ?s1.0 = "ready_state\<lparr>nextIntervalId := 2\<rparr>" and ?tr1.0 = "FetchKey # ?tr"]
  from C ready_app_guards run session_example show ?thesis
    by auto
qed

section \<open>Initialization\<close>


lemma initializeApp_try:
  "\<not> aistudio w \<or> hasSelectedApiKey w = Inr True \<Longrightarrow> initializeApp w s = try_getApiKey w s"
  by (auto simp: initializeApp_def isAiStudio_def)



section \<open>Fetching the key\<close>

lemma getApiKey_production_success:
  "\<not> aistudio w \<Longrightarrow> getApiKey w s = (Inr k, s', tr) \<Longrightarrow> apiKey s' = Some k \<and> k \<noteq> []"
  by (auto simp: getApiKey_def fetchApiKey_def isAiStudio_def
      split: if_splits option.splits sum.splits)

lemma truthy_apiKey: "truthy (apiKey s) \<Longrightarrow> \<exists>k. apiKey s = Some k \<and> k \<noteq> []"
  by (cases "apiKey s") simp_all

lemma fetchkey_not_in_polls_trace: "FetchKey \<notin> set (polls_trace poll key n op k)"
  by (induction k arbitrary: n op) (simp_all split: sum.splits)

lemma fetchkey_not_in_download: "download w key op = (r, trd) \<Longrightarrow> FetchKey \<notin> set trd"
  by (auto dest: download_trace)

lemma catch_block_keeps_inv:
  "isInitialized s \<longrightarrow> truthy (apiKey s) \<Longrightarrow>
   isInitialized (catch_block w e s) \<longrightarrow> truthy (apiKey (catch_block w e s))"
  by (simp add: catch_block_def)

lemma generateVideoFromImage_production:
  assumes run: "generateVideoFromImage w params s = Some (r, s', tr)"
    and prod: "\<not> aistudio w"
    and inv: "isInitialized s \<longrightarrow> truthy (apiKey s)"
  shows "(isInitialized s' \<longrightarrow> truthy (apiKey s')) \<and> FetchKey \<notin> set tr"
  using run
proof (cases rule: generateVideoFromImage_cases)
  case not_initialized
  with inv show ?thesis by simp
next
  case (no_key e)
  with inv obtain k where "apiKey s = Some k" "k \<noteq> []"
    by (auto dest: truthy_apiKey)
  from getApiKey_cached [OF prod this] no_key(2) show ?thesis by simp
next
  case (create_rejected key s1 tr1 e)
  with inv obtain k where "apiKey s = Some k" "k \<noteq> []"
    by (auto dest: truthy_apiKey)
  from getApiKey_cached [OF prod this] create_rejected(2) have "s1 = s" "tr1 = []" by simp_all
  with create_rejected catch_block_keeps_inv [OF inv, of w e] show ?thesis by simp
next
  case (poll_rejected key s1 tr1 op0 e trp)
  with inv obtain k where "apiKey s = Some k" "k \<noteq> []"
    by (auto dest: truthy_apiKey)
  from getApiKey_cached [OF prod this] poll_rejected(2) have eq: "s1 = s" "tr1 = []" by simp_all
  from poll_loop_trace [OF poll_rejected(4)] have "FetchKey \<notin> set trp"
    by (auto simp: fetchkey_not_in_polls_trace)
  moreover have "isInitialized (snd (setInterval s)) \<longrightarrow> truthy (apiKey (snd (setInterval s)))"
    using inv by (simp add: setInterval_def)
  ultimately show ?thesis
    using poll_rejected eq catch_block_keeps_inv [of "snd (setInterval s)" w e] by simp
next
  case (loop_left key s1 tr1 op0 op trp trd)
  with inv obtain k where "apiKey s = Some k" "k \<noteq> []"
    by (auto dest: truthy_apiKey)
  from getApiKey_cached [OF prod this] loop_left(2) have eq: "s1 = s" "tr1 = []" by simp_all
  let ?s3 = "clearInterval (fst (setInterval s)) (snd (setInterval s))"
  from poll_loop_trace [OF loop_left(4)] have "FetchKey \<notin> set trp"
    by (auto simp: fetchkey_not_in_polls_trace)
  moreover have i3: "isInitialized ?s3 \<longrightarrow> truthy (apiKey ?s3)"
    using inv by (simp add: setInterval_def clearInterval_def)
  moreover note fetchkey_not_in_download [OF loop_left(5)]
  ultimately show ?thesis
    using loop_left eq catch_block_keeps_inv [OF i3, of w]
    by (cases r) simp_all
qed

lemma app_step_production:
  assumes step: "app_step ev w (a, s) = Some (a', s', tr)"
    and prod: "\<not> aistudio w"
    and inv: "isInitialized s \<longrightarrow> truthy (apiKey s)"
  shows "(isInitialized s' \<longrightarrow> truthy (apiKey s')) \<and> FetchKey \<notin> set tr"
proof (cases ev)
  case ClickGenerate
  with step have h: "handleGenerateVideo w (a, s) = Some (a', s', tr)"
    by (simp add: app_step_def)
  show ?thesis
  proof (cases "generateVideoFromImage w (video_params a) s")
    case None
    with h inv show ?thesis
      by (auto simp: handleGenerateVideo_def split: if_splits)
  next
    case (Some y)
    obtain r s2 tr2 where y: "y = (r, s2, tr2)" by (cases y)
    from generateVideoFromImage_production [OF Some [unfolded y] prod inv] h inv Some y
    show ?thesis
      by (cases r) (auto simp: handleGenerateVideo_def split: if_splits)
  qed
qed (insert step inv, auto simp: app_step_def)

lemma run_events_production:
  "run_events evs (a, s) = Some (a', s', tr) \<Longrightarrow>
   \<forall>ew \<in> set evs. \<not> aistudio (snd ew) \<Longrightarrow>
   isInitialized s \<longrightarrow> truthy (apiKey s) \<Longrightarrow>
   FetchKey \<notin> set tr"
proof (induction evs arbitrary: a s tr)
  case Nil
  then show ?case by simp
next
  case (Cons ew evs)
  from Cons.prems(1) obtain a1 s1 tr1 tr2 where
    1: "app_step (fst ew) (snd ew) (a, s) = Some (a1, s1, tr1)" and
    2: "run_events evs (a1, s1) = Some (a', s', tr2)" and
    3: "tr = tr1 @ tr2"
    by (auto split: option.splits)
  from Cons.prems(2) have p: "\<not> aistudio (snd ew)" and ps: "\<forall>ew \<in> set evs. \<not> aistudio (snd ew)"
    by simp_all
  from app_step_production [OF 1 p Cons.prems(3)]
  have "isInitialized s1 \<longrightarrow> truthy (apiKey s1)" and "FetchKey \<notin> set tr1" by simp_all
  with Cons.IH [OF 2 ps] 3 show ?case by simp
qed

lemma init_production:
  assumes "init w (initial_app, initial_state) = (a, s, tr)" and "\<not> aistudio w"
  shows "(isInitialized s \<longrightarrow> truthy (apiKey s)) \<and> count_list tr FetchKey \<le> 1"
proof -
  obtain r s1 tr1 where g: "getApiKey w initial_state = (r, s1, tr1)"
    by (cases "getApiKey w initial_state")
  from getApiKey_trace [OF g] have c: "count_list tr1 FetchKey \<le> 1" by auto
  have n: "\<not> isInitialized initial_state"
    by (simp add: initial_state_def)
  show ?thesis
  proof (cases r)
    case (Inl e)
    with g n have "s1 = initial_state"
      by (auto simp: getApiKey_def fetchApiKey_def split: if_splits option.splits sum.splits)
    with assms g Inl c n show ?thesis
      by (auto simp: init_def initializeApp_try try_getApiKey_def split: if_splits)
  next
    case (Inr k)
    with getApiKey_production_success [OF assms(2), of initial_state k s1 tr1] g
    have "apiKey s1 = Some k" "k \<noteq> []" by simp_all
    with assms g Inr c show ?thesis
      by (auto simp: init_def initializeApp_try try_getApiKey_def)
  qed
qed

lemma count_list_zero: "x \<notin> set xs \<Longrightarrow> count_list xs x = 0"
  by (induction xs) auto

text \<open>
  C8: outside AI Studio, after one successful retrieval every later call of \<open>getApiKey\<close>
  returns the same key from the cache, without a request and without a change of the
  state; in a session of the page the key is fetched from /api/get-key at most once.
  In AI Studio every call reads \<open>process.env.API_KEY\<close> as it is then, and makes no
  request.
\<close>

theorem C8_key_fetched_once:
  "(\<not> aistudio w \<and> getApiKey w s = (Inr k, s', tr) \<longrightarrow>
      (\<forall>w'. \<not> aistudio w' \<longrightarrow> getApiKey w' s' = (Inr k, s', [])))
   \<and> (\<not> aistudio w \<and> truthy (apiKey s) \<longrightarrow> getApiKey w s = (Inr (the (apiKey s)), s, []))
   \<and> (aistudio w \<longrightarrow>
        getApiKey w s =
          (if truthy (env_API_KEY w) then Inr (the (env_API_KEY w))
           else Inl (Error (Some ''DEV_KEY_MISSING'')), s, []))
   \<and> (\<not> aistudio w0 \<and> (\<forall>ew \<in> set evs. \<not> aistudio (snd ew))
        \<and> session w0 evs = Some (a1, s1, tr1) \<longrightarrow>
        count_list tr1 FetchKey \<le> 1)"
proof (intro conjI)
  show "\<not> aistudio w \<and> getApiKey w s = (Inr k, s', tr) \<longrightarrow>
      (\<forall>w'. \<not> aistudio w' \<longrightarrow> getApiKey w' s' = (Inr k, s', []))"
    by (auto dest: getApiKey_production_success simp: getApiKey_cached)
  show "\<not> aistudio w \<and> truthy (apiKey s) \<longrightarrow> getApiKey w s = (Inr (the (apiKey s)), s, [])"
    by (auto dest: truthy_apiKey simp: getApiKey_cached)
  show "aistudio w \<longrightarrow>
        getApiKey w s =
          (if truthy (env_API_KEY w) then Inr (the (env_API_KEY w))
           else Inl (Error (Some ''DEV_KEY_MISSING'')), s, [])"
    by (simp add: getApiKey_studio)
  show "\<not> aistudio w0 \<and> (\<forall>ew \<in> set evs. \<not> aistudio (snd ew))
        \<and> session w0 evs = Some (a1, s1, tr1) \<longrightarrow>
        count_list tr1 FetchKey \<le> 1"
  proof
    assume h: "\<not> aistudio w0 \<and> (\<forall>ew \<in> set evs. \<not> aistudio (snd ew))
        \<and> session w0 evs = Some (a1, s1, tr1)"
    then obtain a0 s0 tr0 tr2 where
      1: "init w0 (initial_app, initial_state) = (a0, s0, tr0)" and
      2: "run_events evs (a0, s0) = Some (a1, s1, tr2)" and
      3: "tr1 = tr0 @ tr2"
      by (auto simp: session_def split: prod.splits option.splits)
    from h have p0: "\<not> aistudio w0" and ps: "\<forall>ew \<in> set evs. \<not> aistudio (snd ew)"
      by simp_all
    from init_production [OF 1 p0]
    have i: "isInitialized s0 \<longrightarrow> truthy (apiKey s0)" and c: "count_list tr0 FetchKey \<le> 1"
      by simp_all
    from run_events_production [OF 2 ps i] have "count_list tr2 FetchKey = 0"
      by (rule count_list_zero)
    with c 3 show "count_list tr1 FetchKey \<le> 1" by simp
  qed
qed

theorem C8_key_fetched_once_witness:
  "\<not> aistudio key_served
   \<and> getApiKey key_served initial_state
       = (Inr ''KEY'', initial_state\<lparr>apiKey := Some ''KEY''\<rparr>, [FetchKey])
   \<and> \<not> aistudio offline \<and> \<not> aistudio progressing
   \<and> getApiKey offline (initial_state\<lparr>apiKey := Some ''KEY''\<rparr>)
       = (Inr ''KEY'', initial_state\<lparr>apiKey := Some ''KEY''\<rparr>, [])
   \<and> truthy (apiKey ready_state)
   \<and> getApiKey offline ready_state = (Inr ''KEY'', ready_state, [])
   \<and> aistudio studio_key
   \<and> getApiKey studio_key initial_state = (Inr ''STUDIO'', initial_state, [])
   \<and> session key_served [(SelectImage (Some ''iVBOR''), offline), (ClickGenerate, progressing)]
     = Some (ready_app\<lparr>error := None, generatedVideoUrl := Undefined,
                generatedVideoBlob := Undefined, isLoading := False\<rparr>,
             ready_state\<lparr>nextIntervalId := 2\<rparr>,
             [FetchKey,
              SetLoadingMessage ''Initializing animation sequence...'',
              GenerateVideos ''KEY'' monster,
              SetInterval 1 5000,
              SetLoadingMessage ''The animation portal is open. Generating video...'',
              SetTimeout 10000,
              GetVideosOperation ''KEY'' running,
              SetTimeout 10000,
              GetVideosOperation ''KEY'' (running\<lparr>name := ''operations/1b'', metadata := Some ''50%''\<rparr>),
              ClearInterval 1,
              SetLoadingMessage ''Finalizing your video...'',
              FetchVideo ''https://videos/1?alt=media&key=KEY'',
              CreateObjectURL [0, 0, 0, 24]])
   \<and> count_list
         [FetchKey,
          SetLoadingMessage ''Initializing animation sequence...'',
          GenerateVideos ''KEY'' monster,
          SetInterval 1 5000,
          SetLoadingMessage ''The animation portal is open. Generating video...'',
          SetTimeout 10000,
          GetVideosOperation ''KEY'' running,
          SetTimeout 10000,
          GetVideosOperation ''KEY'' (running\<lparr>name := ''operations/1b'', metadata := Some ''50%''\<rparr>),
          ClearInterval 1,
          SetLoadingMessage ''Finalizing your video...'',
          FetchVideo ''https://videos/1?alt=media&key=KEY'',
          CreateObjectURL [0, 0, 0, 24]] FetchKey \<le> 1"
proof -
  have p: "\<not> aistudio key_served" "\<not> aistudio offline" "\<not> aistudio progressing"
    by (simp_all add: key_served_def progressing_def offline_def)
  have st: "aistudio studio_key" "truthy (env_API_KEY studio_key)"
    "the (env_API_KEY studio_key) = ''STUDIO''"
    by (simp_all add: studio_key_def offline_def)
  have g: "getApiKey key_served initial_state
      = (Inr ''KEY'', initial_state\<lparr>apiKey := Some ''KEY''\<rparr>, [FetchKey])"
    by (simp add: getApiKey_def fetchApiKey_def isAiStudio_def key_served_def offline_def
        key_file_def data_apiKey_def initial_state_def)
  have t: "truthy (apiKey ready_state)" "the (apiKey ready_state) = ''KEY''"
    by (simp_all add: ready_state_def)
  have evs: "\<forall>ew \<in> set [(SelectImage (Some ''iVBOR''), offline), (ClickGenerate, progressing)].
      \<not> aistudio (snd ew)"
    using p by simp
  note C1 = C8_key_fetched_once [where w = key_served and s = initial_state and k = "''KEY''"
      and s' = "initial_state\<lparr>apiKey := Some ''KEY''\<rparr>" and tr = "[FetchKey]" and ?w0.0 = key_served
      and evs = "[(SelectImage (Some ''iVBOR''), offline), (ClickGenerate, progressing)]"]
  note C2 = C8_key_fetched_once [where w = offline and s = ready_state]
  note C3 = C8_key_fetched_once [where w = studio_key and s = initial_state]
  from C1 C2 C3 p st g t evs session_example
  show ?thesis by simp
qed

end
